theory Spec2Isabelle
  imports Complex_Main "HOL-Library.Char_ord" "HOL-Library.List_Lexorder"
    "HOL-Library.Product_Lexorder"
begin

section \<open>Exceptions and statements\<close>

text \<open>
  The exceptions the modelled code can raise. \<open>Exception\<close> carries its message, as the
  bare \<^verbatim>\<open>raise Exception("...")\<close> of \<^verbatim>\<open>ProjectTemplate.apply_to_project\<close> does; the
  others are the ORM's and Python's own.
\<close>

datatype error =
    Exception string
  | ValidationError string
  | DoesNotExist
  | MultipleObjectsReturned
  | IntegrityError
  | TypeError
  | KeyError
  | IndexError

text \<open>
  A statement runs on a state and returns the exception it raised, if any, together with
  the state at that moment: what was written before a \<^verbatim>\<open>raise\<close> stays written.
\<close>

type_synonym 's stmt = "'s \<Rightarrow> error option \<times> 's"

fun run :: "'s stmt list \<Rightarrow> 's stmt" where
  "run [] s = (None, s)"
| "run (c # cs) s = (case c s of (None, s') \<Rightarrow> run cs s' | (Some e, s') \<Rightarrow> (Some e, s'))"

fun for_each :: "('a \<Rightarrow> 's stmt) \<Rightarrow> 'a list \<Rightarrow> 's stmt" where
  "for_each body [] s = (None, s)"
| "for_each body (x # xs) s =
     (case body x s of (None, s') \<Rightarrow> for_each body xs s' | (Some e, s') \<Rightarrow> (Some e, s'))"

text \<open>
  A \<^verbatim>\<open>JsonField(null=True)\<close> holding a list is \<open>None\<close> or a list; iterating \<open>None\<close>
  raises \<^verbatim>\<open>TypeError\<close>, and \<open>None\<close> and the empty list are both falsy.
\<close>

definition for_json :: "('a \<Rightarrow> 's stmt) \<Rightarrow> 'a list option \<Rightarrow> 's stmt" where
  "for_json body js s = (case js of None \<Rightarrow> (Some TypeError, s) | Some xs \<Rightarrow> for_each body xs s)"

definition truthy_list :: "'a list option \<Rightarrow> bool" where
  "truthy_list js = (case js of None \<Rightarrow> False | Some xs \<Rightarrow> xs \<noteq> [])"

section \<open>Tables and the taxonomy models\<close>

text \<open>
  A row of a project-scoped table is its primary key, its \<^verbatim>\<open>project\<close> foreign key and its
  other columns. For every taxonomy model of \<^verbatim>\<open>models.py\<close> the other columns are exactly
  the keys of the dict that \<^verbatim>\<open>load_data_from_project\<close> writes into the template and
  \<^verbatim>\<open>apply_to_project\<close> reads back, so one record type serves as both.
\<close>

record 'a row =
  row_id :: nat
  row_project :: nat
  row_data :: 'a

text \<open>Every taxonomy model has \<^verbatim>\<open>name\<close> and \<^verbatim>\<open>order\<close>.\<close>

record taxon =
  name :: string
  order :: int

text \<open>\<^verbatim>\<open>Points\<close>: name, order, value.\<close>

record points_cols = taxon +
  points_value :: "real option"

text \<open>\<^verbatim>\<open>IssueType\<close>, \<^verbatim>\<open>Priority\<close>, \<^verbatim>\<open>Severity\<close>: name, order, color.\<close>

record colored = taxon +
  color :: string

text \<open>\<^verbatim>\<open>TaskStatus\<close>, \<^verbatim>\<open>IssueStatus\<close>: name, order, color, slug, is_closed.\<close>

record status_cols = colored +
  slug :: string
  is_closed :: bool

text \<open>\<^verbatim>\<open>UserStoryStatus\<close>: the status columns, is_archived and wip_limit.\<close>

record us_status_cols = status_cols +
  is_archived :: bool
  wip_limit :: "int option"

text \<open>
  \<^verbatim>\<open>users.Role\<close> is declared outside the files under verification; these are the columns
  the template code reads and writes.
\<close>

record role_cols = taxon +
  role_slug :: string
  permissions :: "string list"
  computable :: bool

type_synonym UserStoryStatus = "us_status_cols row"
type_synonym Points = "points_cols row"
type_synonym TaskStatus = "status_cols row"
type_synonym IssueStatus = "status_cols row"
type_synonym IssueType = "colored row"
type_synonym Priority = "colored row"
type_synonym Severity = "colored row"
type_synonym Role = "role_cols row"

subsection \<open>Querysets\<close>

definition filter_project :: "nat \<Rightarrow> 'a row list \<Rightarrow> 'a row list" where
  "filter_project p tbl = filter (\<lambda>r. row_project r = p) tbl"

text \<open>
  \<^verbatim>\<open>project.<related>.all()\<close>: the rows of the project in \<^verbatim>\<open>Meta.ordering\<close>, which is
  \<^verbatim>\<open>["project", "order", "name"]\<close> for the seven taxonomy models of \<^verbatim>\<open>models.py\<close>. An
  unsaved project has no related rows.
\<close>

definition related_all :: "nat option \<Rightarrow> 'a taxon_scheme row list \<Rightarrow> 'a taxon_scheme row list" where
  "related_all pid tbl =
     (case pid of None \<Rightarrow> []
      | Some p \<Rightarrow> sort_key (\<lambda>r. (order (row_data r), name (row_data r))) (filter_project p tbl))"

text \<open>
  \<^verbatim>\<open>project.roles.all()\<close>: \<^verbatim>\<open>Role.Meta.ordering\<close> is not among the files under
  verification, so the rows come in table order.
\<close>

definition related_roles :: "nat option \<Rightarrow> Role list \<Rightarrow> Role list" where
  "related_roles pid tbl = (case pid of None \<Rightarrow> [] | Some p \<Rightarrow> filter_project p tbl)"

text \<open>
  \<^verbatim>\<open>Model.objects.get(name=n, project=project)\<close>. A \<open>None\<close> name compiles to
  \<^verbatim>\<open>name IS NULL\<close>, which no row satisfies (\<^verbatim>\<open>null=False\<close>).
\<close>

definition objects_get :: "string option \<Rightarrow> nat \<Rightarrow> 'a taxon_scheme row list \<Rightarrow> error + 'a taxon_scheme row" where
  "objects_get n p tbl =
     (case filter (\<lambda>r. row_project r = p \<and> Some (name (row_data r)) = n) tbl of
        [] \<Rightarrow> Inl DoesNotExist
      | [r] \<Rightarrow> Inr r
      | _ \<Rightarrow> Inl MultipleObjectsReturned)"

text \<open>Following a foreign key: the row with that primary key.\<close>

definition by_id :: "nat \<Rightarrow> 'a row list \<Rightarrow> 'a row option" where
  "by_id i tbl = find (\<lambda>r. row_id r = i) tbl"

definition fresh_id :: "'a row list \<Rightarrow> nat" where
  "fresh_id tbl = Suc (fold max (map row_id tbl) 0)"

text \<open>
  \<^verbatim>\<open>Model.objects.create(..., project=project)\<close>: the model's \<^verbatim>\<open>save\<close> override runs
  first (\<open>pre_save\<close>, given the project's current rows), then the row is inserted under a
  new primary key unless a \<^verbatim>\<open>unique_together\<close> constraint (\<open>clash\<close>) rejects it.
\<close>

definition objects_create ::
  "('a \<Rightarrow> 'a row list \<Rightarrow> 'a) \<Rightarrow> ('a \<Rightarrow> 'a \<Rightarrow> bool) \<Rightarrow> nat \<Rightarrow> 'a \<Rightarrow> 'a row list stmt" where
  "objects_create pre_save clash p d tbl =
     (let d' = pre_save d (filter_project p tbl) in
      if \<exists>r \<in> set tbl. row_project r = p \<and> clash (row_data r) d' then (Some IntegrityError, tbl)
      else (None, tbl @ [\<lparr>row_id = fresh_id tbl, row_project = p, row_data = d'\<rparr>]))"

text \<open>\<^verbatim>\<open>unique_together = ("project", "name")\<close>.\<close>

definition unique_name :: "'a taxon_scheme \<Rightarrow> 'a taxon_scheme \<Rightarrow> bool" where
  "unique_name a b = (name a = name b)"

text \<open>\<^verbatim>\<open>unique_together = (("project", "name"), ("project", "slug"))\<close>.\<close>

definition unique_name_slug :: "'a status_cols_scheme \<Rightarrow> 'a status_cols_scheme \<Rightarrow> bool" where
  "unique_name_slug a b = (name a = name b \<or> slug a = slug b)"

definition no_constraint :: "'a \<Rightarrow> 'a \<Rightarrow> bool" where
  "no_constraint a b = False"

definition plain_save :: "'a \<Rightarrow> 'a row list \<Rightarrow> 'a" where
  "plain_save d qs = d"

text \<open>
  The \<^verbatim>\<open>save\<close> of \<^verbatim>\<open>UserStoryStatus\<close>, \<^verbatim>\<open>TaskStatus\<close> and \<^verbatim>\<open>IssueStatus\<close> replaces the
  slug by \<^verbatim>\<open>slugify_uniquely_for_queryset(self.name, qs)\<close>, \<open>qs\<close> being the project's rows
  (a new row has no id, so nothing is excluded). The slugifier is imported from
  \<^verbatim>\<open>taiga.base.utils.slug\<close> and is a parameter here: it gets the name and the slugs in use.
\<close>

type_synonym slugifier = "string \<Rightarrow> string list \<Rightarrow> string"

definition status_save :: "slugifier \<Rightarrow> 'a status_cols_scheme \<Rightarrow> 'a status_cols_scheme row list \<Rightarrow> 'a status_cols_scheme" where
  "status_save slugify_uniquely_for_queryset d qs =
     d\<lparr>slug := slugify_uniquely_for_queryset (name d) (map (\<lambda>r. slug (row_data r)) qs)\<rparr>"

section \<open>Project, ProjectTemplate and the database\<close>

text \<open>The fields \<^verbatim>\<open>Project\<close> and \<^verbatim>\<open>ProjectTemplate\<close> both declare.\<close>

record ProjectSettings =
  is_backlog_activated :: bool
  is_kanban_activated :: bool
  is_wiki_activated :: bool
  is_issues_activated :: bool
  videoconferences :: "string option"
  videoconferences_extra_data :: "string option"

text \<open>
  A \<^verbatim>\<open>Project\<close> instance. \<open>project_id\<close> is \<open>None\<close> until the first save; foreign keys hold
  the primary key of the row they point to.
\<close>

record Project = ProjectSettings +
  project_id :: "nat option"
  project_name :: string
  project_slug :: string
  owner_id :: "nat option"
  modified_date :: "nat option"
  importing :: bool
  creation_template :: "nat option"
  default_points :: "nat option"
  default_us_status :: "nat option"
  default_task_status :: "nat option"
  default_priority :: "nat option"
  default_severity :: "nat option"
  default_issue_status :: "nat option"
  default_issue_type :: "nat option"

record ProjectTemplate = ProjectSettings +
  template_id :: "nat option"
  default_owner_role :: string
  default_options :: "(string \<rightharpoonup> string option) option"
  us_statuses :: "us_status_cols list option"
  points :: "points_cols list option"
  task_statuses :: "status_cols list option"
  issue_statuses :: "status_cols list option"
  issue_types :: "colored list option"
  priorities :: "colored list option"
  severities :: "colored list option"
  roles :: "role_cols list option"

text \<open>A \<^verbatim>\<open>Membership\<close> row; an invitation has no user.\<close>

record Membership =
  membership_id :: "nat option"
  membership_user :: "nat option"
  membership_project :: nat
  membership_role :: nat
  membership_email :: "string option"

text \<open>The columns of \<^verbatim>\<open>users.User\<close> that the modelled code reads.\<close>

record User =
  user_id :: nat
  username :: string
  is_active :: bool
  is_system :: bool

record db =
  UserStoryStatus_objects :: "UserStoryStatus list"
  Points_objects :: "Points list"
  TaskStatus_objects :: "TaskStatus list"
  IssueStatus_objects :: "IssueStatus list"
  IssueType_objects :: "IssueType list"
  Priority_objects :: "Priority list"
  Severity_objects :: "Severity list"
  Role_objects :: "Role list"
  Membership_objects :: "Membership list"
  User_objects :: "User list"

section \<open>ProjectTemplate.apply_to_project\<close>

text \<open>A statement on one table, run on the table \<open>get\<close> of the database.\<close>

definition on_table ::
  "(db \<Rightarrow> 't) \<Rightarrow> ('t \<Rightarrow> db \<Rightarrow> db) \<Rightarrow> 't stmt \<Rightarrow> (Project \<times> db) stmt" where
  "on_table get put c = (\<lambda>(project, d). case c (get d) of (r, t') \<Rightarrow> (r, (project, put t' d)))"

text \<open>\<^verbatim>\<open>self.default_options[key]\<close>.\<close>

definition default_option :: "ProjectTemplate \<Rightarrow> string \<Rightarrow> error + string option" where
  "default_option self key =
     (case default_options self of None \<Rightarrow> Inl TypeError
      | Some m \<Rightarrow> (case m key of None \<Rightarrow> Inl KeyError | Some v \<Rightarrow> Inr v))"

text \<open>
  \<^verbatim>\<open>if self.<snapshot>: project.default_x = Model.objects.get(name=self.default_options[key], project=project)\<close>
\<close>

definition assign_default ::
  "'b list option \<Rightarrow> (db \<Rightarrow> 'a taxon_scheme row list) \<Rightarrow> (nat option \<Rightarrow> Project \<Rightarrow> Project) \<Rightarrow>
   ProjectTemplate \<Rightarrow> string \<Rightarrow> nat \<Rightarrow> (Project \<times> db) stmt" where
  "assign_default snapshot_list objects setter self key p = (\<lambda>(project, d).
     if truthy_list snapshot_list then
       (case default_option self key of
          Inl e \<Rightarrow> (Some e, (project, d))
        | Inr n \<Rightarrow>
           (case objects_get n p (objects d) of
              Inl e \<Rightarrow> (Some e, (project, d))
            | Inr r \<Rightarrow> (None, (setter (Some (row_id r)) project, d))))
     else (None, (project, d)))"

definition copy_settings :: "ProjectTemplate \<Rightarrow> (Project \<times> db) stmt" where
  "copy_settings self = (\<lambda>(project, d).
     (None,
      (project\<lparr>creation_template := template_id self,
               is_backlog_activated := is_backlog_activated self,
               is_kanban_activated := is_kanban_activated self,
               is_wiki_activated := is_wiki_activated self,
               is_issues_activated := is_issues_activated self,
               videoconferences := videoconferences self,
               videoconferences_extra_data := videoconferences_extra_data self\<rparr>, d)))"

definition apply_to_project ::
  "slugifier \<Rightarrow> ProjectTemplate \<Rightarrow> (Project \<times> db) stmt" where
  "apply_to_project slugify self = (\<lambda>(project, d).
     case project_id project of
       None \<Rightarrow> (Some (Exception ''Project need an id (must be a saved project)''), (project, d))
     | Some p \<Rightarrow>
       run [
         copy_settings self,
         on_table UserStoryStatus_objects (\<lambda>t. UserStoryStatus_objects_update (\<lambda>_. t))
           (for_json (objects_create (status_save slugify) unique_name_slug p) (us_statuses self)),
         on_table Points_objects (\<lambda>t. Points_objects_update (\<lambda>_. t))
           (for_json (objects_create plain_save unique_name p) (points self)),
         on_table TaskStatus_objects (\<lambda>t. TaskStatus_objects_update (\<lambda>_. t))
           (for_json (objects_create (status_save slugify) unique_name_slug p) (task_statuses self)),
         on_table IssueStatus_objects (\<lambda>t. IssueStatus_objects_update (\<lambda>_. t))
           (for_json (objects_create (status_save slugify) unique_name_slug p) (issue_statuses self)),
         on_table IssueType_objects (\<lambda>t. IssueType_objects_update (\<lambda>_. t))
           (for_json (objects_create plain_save unique_name p) (issue_types self)),
         on_table Priority_objects (\<lambda>t. Priority_objects_update (\<lambda>_. t))
           (for_json (objects_create plain_save unique_name p) (priorities self)),
         on_table Severity_objects (\<lambda>t. Severity_objects_update (\<lambda>_. t))
           (for_json (objects_create plain_save unique_name p) (severities self)),
         on_table Role_objects (\<lambda>t. Role_objects_update (\<lambda>_. t))
           (for_json (objects_create plain_save no_constraint p) (roles self)),
         assign_default (points self) Points_objects (\<lambda>v. default_points_update (\<lambda>_. v))
           self ''points'' p,
         assign_default (us_statuses self) UserStoryStatus_objects (\<lambda>v. default_us_status_update (\<lambda>_. v))
           self ''us_status'' p,
         assign_default (task_statuses self) TaskStatus_objects (\<lambda>v. default_task_status_update (\<lambda>_. v))
           self ''task_status'' p,
         assign_default (issue_statuses self) IssueStatus_objects (\<lambda>v. default_issue_status_update (\<lambda>_. v))
           self ''issue_status'' p,
         assign_default (issue_types self) IssueType_objects (\<lambda>v. default_issue_type_update (\<lambda>_. v))
           self ''issue_type'' p,
         assign_default (priorities self) Priority_objects (\<lambda>v. default_priority_update (\<lambda>_. v))
           self ''priority'' p,
         assign_default (severities self) Severity_objects (\<lambda>v. default_severity_update (\<lambda>_. v))
           self ''severity'' p
       ] (project, d))"

section \<open>Theorems\<close>

section \<open>ProjectTemplate.load_data_from_project\<close>

definition and_then :: "error + 'a \<Rightarrow> ('a \<Rightarrow> error + 'b) \<Rightarrow> error + 'b" where
  "and_then m f = (case m of Inl e \<Rightarrow> Inl e | Inr x \<Rightarrow> f x)"

text \<open>
  \<^verbatim>\<open>getattr(project.default_x, "name", None)\<close>: following the foreign key raises
  \<^verbatim>\<open>DoesNotExist\<close> when the row is gone; a null key gives \<open>None\<close>.
\<close>

definition getattr_name :: "nat option \<Rightarrow> 'a taxon_scheme row list \<Rightarrow> error + string option" where
  "getattr_name fk tbl =
     (case fk of None \<Rightarrow> Inr None
      | Some i \<Rightarrow> (case by_id i tbl of None \<Rightarrow> Inl DoesNotExist
                   | Some r \<Rightarrow> Inr (Some (name (row_data r)))))"

definition default_options_dict :: "db \<Rightarrow> Project \<Rightarrow> error + (string \<rightharpoonup> string option)" where
  "default_options_dict d project =
     and_then (getattr_name (default_points project) (Points_objects d)) (\<lambda>v_points.
     and_then (getattr_name (default_us_status project) (UserStoryStatus_objects d)) (\<lambda>v_us_status.
     and_then (getattr_name (default_task_status project) (TaskStatus_objects d)) (\<lambda>v_task_status.
     and_then (getattr_name (default_issue_status project) (IssueStatus_objects d)) (\<lambda>v_issue_status.
     and_then (getattr_name (default_issue_type project) (IssueType_objects d)) (\<lambda>v_issue_type.
     and_then (getattr_name (default_priority project) (Priority_objects d)) (\<lambda>v_priority.
     and_then (getattr_name (default_severity project) (Severity_objects d)) (\<lambda>v_severity.
       Inr [''points'' \<mapsto> v_points,
            ''us_status'' \<mapsto> v_us_status,
            ''task_status'' \<mapsto> v_task_status,
            ''issue_status'' \<mapsto> v_issue_status,
            ''issue_type'' \<mapsto> v_issue_type,
            ''priority'' \<mapsto> v_priority,
            ''severity'' \<mapsto> v_severity])))))))"

definition load_settings :: "Project \<Rightarrow> ProjectTemplate stmt" where
  "load_settings project self =
     (None,
      self\<lparr>is_backlog_activated := is_backlog_activated project,
           is_kanban_activated := is_kanban_activated project,
           is_wiki_activated := is_wiki_activated project,
           is_issues_activated := is_issues_activated project,
           videoconferences := videoconferences project,
           videoconferences_extra_data := videoconferences_extra_data project\<rparr>)"

definition load_default_options :: "db \<Rightarrow> Project \<Rightarrow> ProjectTemplate stmt" where
  "load_default_options d project self =
     (case default_options_dict d project of
        Inl e \<Rightarrow> (Some e, self)
      | Inr m \<Rightarrow> (None, self\<lparr>default_options := Some m\<rparr>))"

text \<open>
  Each loop appends, for every row of \<^verbatim>\<open>project.<related>.all()\<close>, the dict of the row's
  columns other than \<^verbatim>\<open>id\<close> and \<^verbatim>\<open>project\<close>.
\<close>

definition snapshot :: "Project \<Rightarrow> 'a taxon_scheme row list \<Rightarrow> 'a taxon_scheme list option" where
  "snapshot project tbl = Some (map row_data (related_all (project_id project) tbl))"

definition snapshot_roles :: "Project \<Rightarrow> Role list \<Rightarrow> role_cols list option" where
  "snapshot_roles project tbl = Some (map row_data (related_roles (project_id project) tbl))"

text \<open>
  \<^verbatim>\<open>Membership.objects.get(project=project, user=project.owner)\<close>, its
  \<^verbatim>\<open>Membership.DoesNotExist\<close> caught by falling back to \<^verbatim>\<open>self.roles[0]\<close>.
\<close>

definition load_default_owner_role :: "db \<Rightarrow> Project \<Rightarrow> ProjectTemplate stmt" where
  "load_default_owner_role d project self =
     (case owner_id project of
        None \<Rightarrow> (Some DoesNotExist, self)
      | Some u \<Rightarrow>
         (case find (\<lambda>x. user_id x = u) (User_objects d) of
            None \<Rightarrow> (Some DoesNotExist, self)
          | Some owner \<Rightarrow>
             (case filter (\<lambda>m. Some (membership_project m) = project_id project \<and>
                               membership_user m = Some (user_id owner)) (Membership_objects d) of
                [] \<Rightarrow>
                  (case roles self of
                     None \<Rightarrow> (Some TypeError, self)
                   | Some [] \<Rightarrow> (Some IndexError, self)
                   | Some (r # _) \<Rightarrow> (None, self\<lparr>default_owner_role := role_slug r\<rparr>))
              | [owner_membership] \<Rightarrow>
                  (case by_id (membership_role owner_membership) (Role_objects d) of
                     None \<Rightarrow> (Some DoesNotExist, self)
                   | Some role \<Rightarrow> (None, self\<lparr>default_owner_role := role_slug (row_data role)\<rparr>))
              | _ \<Rightarrow> (Some MultipleObjectsReturned, self))))"

definition load_data_from_project :: "db \<Rightarrow> Project \<Rightarrow> ProjectTemplate stmt" where
  "load_data_from_project d project =
     run [
       load_settings project,
       load_default_options d project,
       (\<lambda>self. (None, self\<lparr>us_statuses := snapshot project (UserStoryStatus_objects d)\<rparr>)),
       (\<lambda>self. (None, self\<lparr>points := snapshot project (Points_objects d)\<rparr>)),
       (\<lambda>self. (None, self\<lparr>task_statuses := snapshot project (TaskStatus_objects d)\<rparr>)),
       (\<lambda>self. (None, self\<lparr>issue_statuses := snapshot project (IssueStatus_objects d)\<rparr>)),
       (\<lambda>self. (None, self\<lparr>issue_types := snapshot project (IssueType_objects d)\<rparr>)),
       (\<lambda>self. (None, self\<lparr>priorities := snapshot project (Priority_objects d)\<rparr>)),
       (\<lambda>self. (None, self\<lparr>severities := snapshot project (Severity_objects d)\<rparr>)),
       (\<lambda>self. (None, self\<lparr>roles := snapshot_roles project (Role_objects d)\<rparr>)),
       load_default_owner_role d project
     ]"

section \<open>Specification vocabulary for the template round trip\<close>

text \<open>
  The predicates below only state properties; none of them is part of the program.
\<close>

text \<open>
  What a create loop appended to a table: rows of project \<open>q\<close> carrying the names of the
  snapshot entries, in order, under primary keys that are new and pairwise different.
\<close>

definition created :: "nat \<Rightarrow> 'a taxon_scheme list \<Rightarrow> 'a taxon_scheme row list \<Rightarrow> 'a taxon_scheme row list \<Rightarrow> bool" where
  "created q ds tbl news =
     (map (\<lambda>r. name (row_data r)) news = map name ds \<and>
      (\<forall>r \<in> set news. row_project r = q) \<and>
      (\<forall>r \<in> set news. \<forall>r' \<in> set tbl. row_id r' < row_id r) \<and>
      distinct (map row_id news))"

text \<open>
  A \<^verbatim>\<open>save\<close> override and a uniqueness constraint fit together when the override keeps
  the name and, after it ran, a row of the project can only clash by its name.
\<close>

definition name_safe :: "('a taxon_scheme \<Rightarrow> 'a taxon_scheme row list \<Rightarrow> 'a taxon_scheme) \<Rightarrow> ('a taxon_scheme \<Rightarrow> 'a taxon_scheme \<Rightarrow> bool) \<Rightarrow> bool" where
  "name_safe pre_save clash =
     (\<forall>d qs. name (pre_save d qs) = name d \<and>
        (\<forall>r \<in> set qs. clash (row_data r) (pre_save d qs) \<longrightarrow> name (row_data r) = name d))"

text \<open>The number of rows of a table scoped to project \<open>p\<close>.\<close>

definition count_rows :: "nat \<Rightarrow> 'a row list \<Rightarrow> nat" where
  "count_rows p tbl = length (filter_project p tbl)"

text \<open>
  The pointer \<open>ptr'\<close> resolves, in the table after the call, to a row of project \<open>q\<close> that was
  not in the table before and has the name of the row \<open>ptr\<close> resolved to before.
\<close>

definition default_copied :: "nat \<Rightarrow> nat option \<Rightarrow> nat option \<Rightarrow> 'a taxon_scheme row list \<Rightarrow> 'a taxon_scheme row list \<Rightarrow> bool" where
  "default_copied q ptr ptr' tbl tbl' =
     (case (ptr, ptr') of
        (Some k, Some k') \<Rightarrow>
          (case (by_id k tbl, by_id k' tbl') of
             (Some r, Some r') \<Rightarrow>
               row_project r' = q \<and> r' \<notin> set tbl \<and> name (row_data r') = name (row_data r)
           | _ \<Rightarrow> False)
      | _ \<Rightarrow> False)"

text \<open>
  The precondition on a default pointer of the source project: when the project has rows in
  the taxonomy, the pointer is set and the record it references has the name of one of the
  project's own rows.
\<close>

definition default_usable :: "nat \<Rightarrow> nat option \<Rightarrow> 'a taxon_scheme row list \<Rightarrow> bool" where
  "default_usable p ptr tbl =
     (filter_project p tbl = [] \<or>
      (case ptr of None \<Rightarrow> False
       | Some k \<Rightarrow>
          (case by_id k tbl of None \<Rightarrow> False
           | Some r \<Rightarrow> name (row_data r) \<in> set (map (\<lambda>x. name (row_data x)) (filter_project p tbl)))))"

text \<open>The contract of the slugifier: the slug it returns is not in use.\<close>

definition fresh_slugs :: "slugifier \<Rightarrow> bool" where
  "fresh_slugs slugify = (\<forall>n sl. slugify n sl \<notin> set sl)"

text \<open>Project \<open>q\<close> has no row in any of the eight taxonomy tables.\<close>

definition project_empty :: "nat \<Rightarrow> db \<Rightarrow> bool" where
  "project_empty q d =
     (filter_project q (UserStoryStatus_objects d) = [] \<and>
      filter_project q (Points_objects d) = [] \<and>
      filter_project q (TaskStatus_objects d) = [] \<and>
      filter_project q (IssueStatus_objects d) = [] \<and>
      filter_project q (IssueType_objects d) = [] \<and>
      filter_project q (Priority_objects d) = [] \<and>
      filter_project q (Severity_objects d) = [] \<and>
      filter_project q (Role_objects d) = [])"

text \<open>
  \<^verbatim>\<open>unique_together = ("project", "name")\<close> within project \<open>p\<close>, for the seven taxonomy
  models that declare it.
\<close>

definition names_of :: "nat \<Rightarrow> 'a taxon_scheme row list \<Rightarrow> string list" where
  "names_of p tbl = map (\<lambda>r. name (row_data r)) (filter_project p tbl)"

definition names_unique :: "nat \<Rightarrow> db \<Rightarrow> bool" where
  "names_unique p d =
     (distinct (names_of p (UserStoryStatus_objects d)) \<and>
      distinct (names_of p (Points_objects d)) \<and>
      distinct (names_of p (TaskStatus_objects d)) \<and>
      distinct (names_of p (IssueStatus_objects d)) \<and>
      distinct (names_of p (IssueType_objects d)) \<and>
      distinct (names_of p (Priority_objects d)) \<and>
      distinct (names_of p (Severity_objects d)))"

text \<open>\<open>default_usable\<close> for the seven default pointers of a project.\<close>

definition defaults_usable :: "Project \<Rightarrow> nat \<Rightarrow> db \<Rightarrow> bool" where
  "defaults_usable P p d =
     (default_usable p (default_us_status P) (UserStoryStatus_objects d) \<and>
      default_usable p (default_points P) (Points_objects d) \<and>
      default_usable p (default_task_status P) (TaskStatus_objects d) \<and>
      default_usable p (default_issue_status P) (IssueStatus_objects d) \<and>
      default_usable p (default_issue_type P) (IssueType_objects d) \<and>
      default_usable p (default_priority P) (Priority_objects d) \<and>
      default_usable p (default_severity P) (Severity_objects d))"

text \<open>
  Per taxonomy, project \<open>q\<close> has in \<open>d'\<close> as many rows as project \<open>p\<close> has in \<open>d\<close>.
\<close>

definition same_counts :: "nat \<Rightarrow> nat \<Rightarrow> db \<Rightarrow> db \<Rightarrow> bool" where
  "same_counts p q d d' =
     (count_rows q (UserStoryStatus_objects d') = count_rows p (UserStoryStatus_objects d) \<and>
      count_rows q (Points_objects d') = count_rows p (Points_objects d) \<and>
      count_rows q (TaskStatus_objects d') = count_rows p (TaskStatus_objects d) \<and>
      count_rows q (IssueStatus_objects d') = count_rows p (IssueStatus_objects d) \<and>
      count_rows q (IssueType_objects d') = count_rows p (IssueType_objects d) \<and>
      count_rows q (Priority_objects d') = count_rows p (Priority_objects d) \<and>
      count_rows q (Severity_objects d') = count_rows p (Severity_objects d) \<and>
      count_rows q (Role_objects d') = count_rows p (Role_objects d))"

text \<open>
  A default pointer after \<^verbatim>\<open>apply_to_project\<close>: unchanged when the source project has no
  row in the taxonomy (the snapshot list is empty), a copy by name otherwise.
\<close>

definition default_after ::
  "nat \<Rightarrow> nat \<Rightarrow> nat option \<Rightarrow> nat option \<Rightarrow> nat option \<Rightarrow> 'a taxon_scheme row list \<Rightarrow> 'a taxon_scheme row list \<Rightarrow> bool" where
  "default_after p q ptr old ptr' tbl tbl' =
     (if filter_project p tbl = [] then ptr' = old else default_copied q ptr ptr' tbl tbl')"

definition defaults_after :: "nat \<Rightarrow> nat \<Rightarrow> Project \<Rightarrow> Project \<Rightarrow> Project \<Rightarrow> db \<Rightarrow> db \<Rightarrow> bool" where
  "defaults_after p q P P2 P2' d d' =
     (default_after p q (default_us_status P) (default_us_status P2) (default_us_status P2')
        (UserStoryStatus_objects d) (UserStoryStatus_objects d') \<and>
      default_after p q (default_points P) (default_points P2) (default_points P2')
        (Points_objects d) (Points_objects d') \<and>
      default_after p q (default_task_status P) (default_task_status P2) (default_task_status P2')
        (TaskStatus_objects d) (TaskStatus_objects d') \<and>
      default_after p q (default_issue_status P) (default_issue_status P2) (default_issue_status P2')
        (IssueStatus_objects d) (IssueStatus_objects d') \<and>
      default_after p q (default_issue_type P) (default_issue_type P2) (default_issue_type P2')
        (IssueType_objects d) (IssueType_objects d') \<and>
      default_after p q (default_priority P) (default_priority P2) (default_priority P2')
        (Priority_objects d) (Priority_objects d') \<and>
      default_after p q (default_severity P) (default_severity P2) (default_severity P2')
        (Severity_objects d) (Severity_objects d'))"

section \<open>A small database used to instantiate the theorems\<close>

text \<open>
  Project 1 has one row in every taxonomy table and its default pointers set; project 2 is
  saved and empty. User 1 owns both and is a member of project 1.
\<close>

definition demo_slugify :: slugifier where
  "demo_slugify n sl = n @ replicate (Suc (fold max (map length sl) 0)) (CHR ''-'')"

definition demo_db :: db where
  "demo_db = \<lparr>
     UserStoryStatus_objects =
       [\<lparr>row_id = 1, row_project = 1,
         row_data = \<lparr>name = ''New'', order = 1, color = ''#999999'', slug = ''new'',
                     is_closed = False, is_archived = False, wip_limit = None\<rparr>\<rparr>],
     Points_objects =
       [\<lparr>row_id = 1, row_project = 1,
         row_data = \<lparr>name = ''?'', order = 1, points_value = None\<rparr>\<rparr>],
     TaskStatus_objects =
       [\<lparr>row_id = 1, row_project = 1,
         row_data = \<lparr>name = ''New'', order = 1, color = ''#999999'', slug = ''new'',
                     is_closed = False\<rparr>\<rparr>],
     IssueStatus_objects =
       [\<lparr>row_id = 1, row_project = 1,
         row_data = \<lparr>name = ''New'', order = 1, color = ''#8C2318'', slug = ''new'',
                     is_closed = False\<rparr>\<rparr>],
     IssueType_objects =
       [\<lparr>row_id = 1, row_project = 1,
         row_data = \<lparr>name = ''Bug'', order = 1, color = ''#89BAB4''\<rparr>\<rparr>],
     Priority_objects =
       [\<lparr>row_id = 1, row_project = 1,
         row_data = \<lparr>name = ''Normal'', order = 3, color = ''#669933''\<rparr>\<rparr>],
     Severity_objects =
       [\<lparr>row_id = 1, row_project = 1,
         row_data = \<lparr>name = ''Normal'', order = 3, color = ''#669933''\<rparr>\<rparr>],
     Role_objects =
       [\<lparr>row_id = 1, row_project = 1,
         row_data = \<lparr>name = ''Back'', order = 1, role_slug = ''back'',
                     permissions = [''view_project''], computable = True\<rparr>\<rparr>],
     Membership_objects =
       [\<lparr>membership_id = Some 1, membership_user = Some 1, membership_project = 1,
         membership_role = 1, membership_email = None\<rparr>],
     User_objects =
       [\<lparr>user_id = 1, username = ''admin'', is_active = True, is_system = False\<rparr>]\<rparr>"

definition demo_project :: Project where
  "demo_project = \<lparr>
     is_backlog_activated = True, is_kanban_activated = False, is_wiki_activated = True,
     is_issues_activated = True, videoconferences = None, videoconferences_extra_data = None,
     project_id = Some 1, project_name = ''Project Example 1'', project_slug = ''project-example-1'',
     owner_id = Some 1, modified_date = Some 0, importing = False, creation_template = None,
     default_points = Some 1, default_us_status = Some 1, default_task_status = Some 1,
     default_priority = Some 1, default_severity = Some 1, default_issue_status = Some 1,
     default_issue_type = Some 1\<rparr>"

definition demo_target :: Project where
  "demo_target = \<lparr>
     is_backlog_activated = True, is_kanban_activated = False, is_wiki_activated = True,
     is_issues_activated = True, videoconferences = None, videoconferences_extra_data = None,
     project_id = Some 2, project_name = ''Project Example 2'', project_slug = ''project-example-2'',
     owner_id = Some 1, modified_date = Some 0, importing = False, creation_template = None,
     default_points = None, default_us_status = None, default_task_status = None,
     default_priority = None, default_severity = None, default_issue_status = None,
     default_issue_type = None\<rparr>"

definition demo_template :: ProjectTemplate where
  "demo_template = \<lparr>
     is_backlog_activated = True, is_kanban_activated = False, is_wiki_activated = True,
     is_issues_activated = True, videoconferences = None, videoconferences_extra_data = None,
     template_id = Some 1, default_owner_role = [], default_options = None,
     us_statuses = None, points = None, task_statuses = None, issue_statuses = None,
     issue_types = None, priorities = None, severities = None, roles = None\<rparr>"

section \<open>Membership.clean\<close>

text \<open>
  \<^verbatim>\<open>Membership.objects.filter(user=self.user, project=self.project)\<close>. A null user compiles
  to \<^verbatim>\<open>user_id IS NULL\<close>. \<^verbatim>\<open>Meta.ordering\<close> is
  \<^verbatim>\<open>["project", "user__full_name", "user__username", "user__email", "email"]\<close>; all rows of the
  result have the same project and user, so they come ordered by \<^verbatim>\<open>email\<close>, nulls last.
\<close>

definition memberships_filter :: "nat option \<Rightarrow> nat \<Rightarrow> Membership list \<Rightarrow> Membership list" where
  "memberships_filter u p objects =
     sort_key (\<lambda>m. case membership_email m of None \<Rightarrow> (1::nat, []) | Some e \<Rightarrow> (0, e))
       (filter (\<lambda>m. membership_user m = u \<and> membership_project m = p) objects)"

text \<open>
  \<^verbatim>\<open>if self.user and memberships.count() > 0 and memberships[0].id != self.id: raise ValidationError\<close>.
  A model instance is truthy, so \<^verbatim>\<open>self.user\<close> is false exactly when it is \<open>None\<close>.
\<close>

definition clean :: "Membership list \<Rightarrow> Membership \<Rightarrow> error option" where
  "clean objects self =
     (let memberships = memberships_filter (membership_user self) (membership_project self) objects in
      if membership_user self \<noteq> None \<and> length memberships > 0 \<and>
         membership_id (hd memberships) \<noteq> membership_id self
      then Some (ValidationError ''The user is already member of the project'')
      else None)"

text \<open>An unsaved second membership of user 1 in project 1, and an invitation to project 1.\<close>

definition demo_second_membership :: Membership where
  "demo_second_membership =
     \<lparr>membership_id = None, membership_user = Some 1, membership_project = 1,
      membership_role = 1, membership_email = None\<rparr>"

definition demo_invitation :: Membership where
  "demo_invitation =
     \<lparr>membership_id = None, membership_user = None, membership_project = 1,
      membership_role = 1, membership_email = Some ''guest@example.com''\<rparr>"

section \<open>Votes: annotating querysets\<close>

text \<open>Values of SQL result columns and of Python attributes, as far as the code tells them apart.\<close>

datatype py_value = PyNone | PyBool bool | PyInt int

text \<open>
  The two tables the SQL of \<^verbatim>\<open>votes/utils.py\<close> reads: \<^verbatim>\<open>votes_votes\<close>, one counter per
  voted object, and \<^verbatim>\<open>votes_vote\<close>, one row per vote.
\<close>

record Votes =
  votes_content_type_id :: nat
  votes_object_id :: nat
  votes_count :: "int option"

record Vote =
  vote_content_type_id :: nat
  vote_object_id :: nat
  vote_user_id :: nat

record vote_db =
  votes_votes :: "Votes list"
  votes_vote :: "Vote list"

text \<open>
  An extra select column is a correlated subquery: evaluated by the database for a row of the
  outer table, of which it sees the primary key (\<^verbatim>\<open>{tbl}.id\<close>).
\<close>

type_synonym extra_sql = "vote_db \<Rightarrow> nat \<Rightarrow> py_value"

text \<open>
  A queryset is a query that has not run: the model it selects from, its row filter, and the
  extra select columns by name. \<^verbatim>\<open>queryset.extra(select={name: sql})\<close> adds or replaces one
  column and runs nothing.
\<close>

record 'm queryset =
  qs_model :: 'm
  qs_where :: "nat \<Rightarrow> bool"
  qs_extra :: "string \<rightharpoonup> extra_sql"

definition extra_select :: "string \<Rightarrow> extra_sql \<Rightarrow> 'm queryset \<Rightarrow> 'm queryset" where
  "extra_select as_field sql queryset = queryset\<lparr>qs_extra := (qs_extra queryset)(as_field \<mapsto> sql)\<rparr>"

text \<open>\<^verbatim>\<open>coalesce(x, d)\<close>, and \<^verbatim>\<open>SUM\<close>, which is null over no rows.\<close>

definition coalesce :: "int option \<Rightarrow> int \<Rightarrow> int" where
  "coalesce x d = (case x of None \<Rightarrow> d | Some v \<Rightarrow> v)"

definition sql_sum :: "int list \<Rightarrow> int option" where
  "sql_sum xs = (if xs = [] then None else Some (sum_list xs))"

text \<open>
  \<^verbatim>\<open>SELECT coalesce(SUM(votes_count), 0) FROM (SELECT coalesce(votes_votes.count, 0) votes_count
  FROM votes_votes WHERE votes_votes.content_type_id = {type_id} AND votes_votes.object_id = {tbl}.id) as e\<close>
\<close>

definition counters_of :: "nat \<Rightarrow> nat \<Rightarrow> vote_db \<Rightarrow> Votes list" where
  "counters_of type_id tbl_id db =
     filter (\<lambda>v. votes_content_type_id v = type_id \<and> votes_object_id v = tbl_id) (votes_votes db)"

definition votes_count_sql :: "nat \<Rightarrow> extra_sql" where
  "votes_count_sql type_id db tbl_id =
     PyInt (coalesce (sql_sum (map (\<lambda>v. coalesce (votes_count v) 0) (counters_of type_id tbl_id db))) 0)"

text \<open>
  \<^verbatim>\<open>SELECT CASE WHEN (SELECT count(*) FROM votes_vote WHERE votes_vote.content_type_id = {type_id}
  AND votes_vote.object_id = {tbl}.id AND votes_vote.user_id = {user_id}) > 0 THEN TRUE ELSE FALSE END\<close>
\<close>

definition is_voted_sql :: "nat \<Rightarrow> nat \<Rightarrow> extra_sql" where
  "is_voted_sql type_id uid db tbl_id =
     PyBool (length (filter (\<lambda>v. vote_content_type_id v = type_id \<and> vote_object_id v = tbl_id \<and>
                                 vote_user_id v = uid) (votes_vote db)) > 0)"

text \<open>
  The two functions of \<^verbatim>\<open>votes/utils.py\<close>. \<open>get_for_model\<close> is
  \<^verbatim>\<open>ContentType.objects.get_for_model\<close>, the id of the model's content type.
\<close>

definition attach_votes_count_to_queryset :: "('m \<Rightarrow> nat) \<Rightarrow> 'm queryset \<Rightarrow> string \<Rightarrow> 'm queryset" where
  "attach_votes_count_to_queryset get_for_model queryset as_field =
     (let model = qs_model queryset;
          type_id = get_for_model model;
          sql = votes_count_sql type_id;
          qs = extra_select as_field sql queryset
      in qs)"

definition attach_is_vote_to_queryset :: "('m \<Rightarrow> nat) \<Rightarrow> nat \<Rightarrow> 'm queryset \<Rightarrow> string \<Rightarrow> 'm queryset" where
  "attach_is_vote_to_queryset get_for_model user queryset as_field =
     (let model = qs_model queryset;
          type_id = get_for_model model;
          sql = is_voted_sql type_id user;
          qs = extra_select as_field sql queryset
      in qs)"

text \<open>
  Running the query, once: the selected rows of the model's table, each with its extra
  columns as attributes. \<open>tables\<close> gives the primary keys in each model's table.
\<close>

record fetched =
  pk :: nat
  attributes :: "string \<rightharpoonup> py_value"

definition fetch :: "('m \<Rightarrow> nat list) \<Rightarrow> vote_db \<Rightarrow> 'm queryset \<Rightarrow> fetched list" where
  "fetch tables db qs =
     map (\<lambda>i. \<lparr>pk = i, attributes = (\<lambda>k. map_option (\<lambda>sql. sql db i) (qs_extra qs k))\<rparr>)
       (filter (qs_where qs) (tables (qs_model qs)))"

subsection \<open>The viewset and serializer mixins\<close>

text \<open>\<^verbatim>\<open>request.user\<close>: \<^verbatim>\<open>is_authenticated()\<close> is false for the anonymous user only.\<close>

datatype request_user = AnonymousUser | AuthenticatedUser nat

definition is_authenticated :: "request_user \<Rightarrow> bool" where
  "is_authenticated u = (case u of AnonymousUser \<Rightarrow> False | AuthenticatedUser _ \<Rightarrow> True)"

text \<open>\<^verbatim>\<open>BaseVotedResource.attach_votes_attrs_to_queryset\<close>.\<close>

definition attach_votes_attrs_to_queryset :: "('m \<Rightarrow> nat) \<Rightarrow> request_user \<Rightarrow> 'm queryset \<Rightarrow> 'm queryset" where
  "attach_votes_attrs_to_queryset get_for_model request_user queryset =
     (let qs = attach_votes_count_to_queryset get_for_model queryset ''votes_count'' in
      case request_user of
        AuthenticatedUser user \<Rightarrow> attach_is_vote_to_queryset get_for_model user qs ''is_voted''
      | AnonymousUser \<Rightarrow> qs)"

text \<open>
  \<^verbatim>\<open>WatchedResourceMixin.attach_watchers_attrs_to_queryset\<close>. Its two helpers are imported
  from \<^verbatim>\<open>taiga.projects.notifications.utils\<close> and are parameters here.
\<close>

definition attach_watchers_attrs_to_queryset ::
  "('m queryset \<Rightarrow> 'm queryset) \<Rightarrow> ('m queryset \<Rightarrow> nat \<Rightarrow> 'm queryset) \<Rightarrow>
   request_user \<Rightarrow> 'm queryset \<Rightarrow> 'm queryset" where
  "attach_watchers_attrs_to_queryset attach_watchers_to_queryset attach_is_watched_to_queryset
     request_user queryset =
     (let qs = attach_watchers_to_queryset queryset in
      case request_user of
        AuthenticatedUser user \<Rightarrow> attach_is_watched_to_queryset qs user
      | AnonymousUser \<Rightarrow> qs)"

text \<open>\<^verbatim>\<open>getattr(obj, name, default) or default\<close>: the attribute when it is there and truthy.\<close>

definition truthy :: "py_value \<Rightarrow> bool" where
  "truthy v = (case v of PyNone \<Rightarrow> False | PyBool b \<Rightarrow> b | PyInt n \<Rightarrow> n \<noteq> 0)"

definition getattr_or :: "fetched \<Rightarrow> string \<Rightarrow> py_value \<Rightarrow> py_value" where
  "getattr_or obj attr dflt =
     (case attributes obj attr of None \<Rightarrow> dflt
      | Some v \<Rightarrow> if truthy v then v else dflt)"

definition get_votes_counter :: "fetched \<Rightarrow> py_value" where
  "get_votes_counter obj = getattr_or obj ''votes_count'' (PyInt 0)"

definition get_is_voted :: "fetched \<Rightarrow> py_value" where
  "get_is_voted obj = getattr_or obj ''is_voted'' (PyBool False)"

definition get_is_watched :: "fetched \<Rightarrow> py_value" where
  "get_is_watched obj = getattr_or obj ''is_watched'' (PyBool False)"

text \<open>Two content types, a few votes, and a query over all tasks.\<close>

datatype demo_model = DemoTask | DemoIssue

definition demo_get_for_model :: "demo_model \<Rightarrow> nat" where
  "demo_get_for_model m = (case m of DemoTask \<Rightarrow> 7 | DemoIssue \<Rightarrow> 8)"

definition demo_tables :: "demo_model \<Rightarrow> nat list" where
  "demo_tables m = (case m of DemoTask \<Rightarrow> [1, 2] | DemoIssue \<Rightarrow> [1])"

definition demo_vote_db :: vote_db where
  "demo_vote_db = \<lparr>
     votes_votes = [\<lparr>votes_content_type_id = 7, votes_object_id = 1, votes_count = Some 2\<rparr>,
                    \<lparr>votes_content_type_id = 8, votes_object_id = 1, votes_count = Some 5\<rparr>],
     votes_vote = [\<lparr>vote_content_type_id = 7, vote_object_id = 1, vote_user_id = 1\<rparr>,
                   \<lparr>vote_content_type_id = 7, vote_object_id = 1, vote_user_id = 2\<rparr>]\<rparr>"

definition demo_queryset :: "demo_model queryset" where
  "demo_queryset = \<lparr>qs_model = DemoTask, qs_where = (\<lambda>_. True), qs_extra = Map.empty\<rparr>"

section \<open>Notifications: the watched-resource mixins\<close>

text \<open>
  The functions of \<^verbatim>\<open>taiga.projects.notifications.services\<close> that the mixins call are not among
  the files under verification. They are parameters: each acts on the state \<open>'w\<close> of the
  notification system (watchers, notify policies, the notifications sent), of which nothing
  is assumed.
\<close>

record ('o, 'w) services =
  analize_object_for_watchers :: "'o \<Rightarrow> string \<Rightarrow> nat \<Rightarrow> 'w \<Rightarrow> 'w"
  services_send_notifications :: "'o \<Rightarrow> string \<times> nat \<Rightarrow> 'w \<Rightarrow> 'w"
  add_watcher :: "'o \<Rightarrow> nat \<Rightarrow> 'w \<Rightarrow> 'w"
  remove_watcher :: "'o \<Rightarrow> nat \<Rightarrow> 'w \<Rightarrow> 'w"
  get_watchers :: "'o \<Rightarrow> 'w \<Rightarrow> nat list"

text \<open>A history entry, as far as the mixin reads it: its comment and its owner.\<close>

type_synonym history = "string \<times> nat"

definition history_comment :: "history \<Rightarrow> string" where
  "history_comment h = fst h"

definition history_owner :: "history \<Rightarrow> nat" where
  "history_owner h = snd h"

text \<open>
  \<^verbatim>\<open>WatchedResourceMixin.send_notifications\<close>. \<open>get_last_history\<close> and
  \<open>get_object_for_snapshot\<close> come from the history mixin and are parameters; \<open>not_notify\<close> is the
  class attribute \<^verbatim>\<open>_not_notify\<close>. A history entry is a model instance, hence truthy:
  \<^verbatim>\<open>not history\<close> holds exactly when there is none.
\<close>

definition send_notifications ::
  "('o, 'w) services \<Rightarrow> ('w \<Rightarrow> history option) \<Rightarrow> ('o \<Rightarrow> 'o) \<Rightarrow> bool \<Rightarrow>
   'o \<Rightarrow> history option \<Rightarrow> 'w \<Rightarrow> 'w" where
  "send_notifications services get_last_history get_object_for_snapshot not_notify obj history w =
     (let history = (case history of None \<Rightarrow> get_last_history w | Some h \<Rightarrow> Some h) in
      case history of
        None \<Rightarrow> w
      | Some h \<Rightarrow>
          if not_notify then w
          else
            let obj = get_object_for_snapshot obj;
                w = analize_object_for_watchers services obj (history_comment h) (history_owner h) w
            in services_send_notifications services obj h w)"

text \<open>
  \<^verbatim>\<open>WatchedResourceModelSerializer.restore_object\<close>. The \<^verbatim>\<open>attrs\<close> dict is its
  \<^verbatim>\<open>"watchers"\<close> entry, if any, and the other entries; \<^verbatim>\<open>self.fields\<close> is the list of the
  serializer's field names. \<open>validate_watchers\<close> and the superclass's \<^verbatim>\<open>restore_object\<close> are
  defined elsewhere and are parameters, as is the list \<open>users\<close> of the ids in the user table;
  \<open>set_watchers\<close> is the assignment \<^verbatim>\<open>obj.watchers = ...\<close>.
\<close>

record 'a attrs_dict =
  attrs_watchers :: "nat list option"
  attrs_rest :: 'a

definition restore_object ::
  "('o, 'w) services \<Rightarrow> ('a attrs_dict \<Rightarrow> error option) \<Rightarrow>
   ('a attrs_dict \<Rightarrow> 'o option \<Rightarrow> error + 'o) \<Rightarrow> nat list \<Rightarrow> (nat list \<Rightarrow> 'o \<Rightarrow> 'o) \<Rightarrow>
   'a attrs_dict \<Rightarrow> 'o option \<Rightarrow> string list \<times> 'w \<Rightarrow> (error + 'o) \<times> string list \<times> 'w" where
  "restore_object services validate_watchers super_restore_object users set_watchers
     attrs instance = (\<lambda>(self_fields, w).
     let self_fields = filter (\<lambda>f. f \<noteq> ''watchers'') self_fields in
     case validate_watchers attrs of
       Some e \<Rightarrow> (Inl e, self_fields, w)
     | None \<Rightarrow>
        let new_watcher_ids = remdups (case attrs_watchers attrs of None \<Rightarrow> [] | Some ids \<Rightarrow> ids);
            attrs = attrs\<lparr>attrs_watchers := None\<rparr>
        in case super_restore_object attrs instance of
             Inl e \<Rightarrow> (Inl e, self_fields, w)
           | Inr obj \<Rightarrow>
              if instance = None \<or> length new_watcher_ids = 0 then (Inr obj, self_fields, w)
              else
                let old_watcher_ids = remdups (get_watchers services obj w);
                    adding_watcher_ids = filter (\<lambda>i. i \<notin> set old_watcher_ids) new_watcher_ids;
                    removing_watcher_ids = filter (\<lambda>i. i \<notin> set new_watcher_ids) old_watcher_ids;
                    adding_users = filter (\<lambda>u. u \<in> set adding_watcher_ids) users;
                    removing_users = filter (\<lambda>u. u \<in> set removing_watcher_ids) users;
                    w = fold (\<lambda>user. add_watcher services obj user) adding_users w;
                    w = fold (\<lambda>user. remove_watcher services obj user) removing_users w
                in (Inr (set_watchers (get_watchers services obj w) obj), self_fields, w))"

text \<open>
  Services to instantiate the theorems with: the state is the set of watchers of the one
  object and the log of what was done; a comment mentions a user by the digit of their
  number.
\<close>

datatype demo_event = Analysed | Sent "nat list" | Added nat | Removed nat

definition demo_mentions :: "string \<Rightarrow> nat set" where
  "demo_mentions c = {u. u < 10 \<and> ''0123456789'' ! u \<in> set c}"

definition demo_services :: "(unit, nat list \<times> demo_event list) services" where
  "demo_services = \<lparr>
     analize_object_for_watchers =
       (\<lambda>obj c owner (ws, log). (ws @ filter (\<lambda>u. ''0123456789'' ! u \<in> set c) [0..<10], log @ [Analysed])),
     services_send_notifications = (\<lambda>obj h (ws, log). (ws, log @ [Sent ws])),
     add_watcher = (\<lambda>obj u (ws, log). (ws @ [u], log @ [Added u])),
     remove_watcher = (\<lambda>obj u (ws, log). (filter (\<lambda>x. x \<noteq> u) ws, log @ [Removed u])),
     get_watchers = (\<lambda>obj (ws, log). ws)\<rparr>"

definition demo_notified :: "nat \<Rightarrow> history \<Rightarrow> nat list \<times> demo_event list \<Rightarrow> bool" where
  "demo_notified u h w = (\<exists>e \<in> set (snd w). case e of Sent us \<Rightarrow> u \<in> set us | _ \<Rightarrow> False)"

section \<open>Project.get_related_people\<close>

text \<open>
  The levels of \<^verbatim>\<open>taiga.projects.notifications.choices.NotifyLevel\<close> and the notify policy
  table, one row per user and project, reached from a user as \<^verbatim>\<open>notify_policies\<close>.
\<close>

datatype NotifyLevel = Notwatch | Watch | Ignore

record NotifyPolicy =
  policy_user :: nat
  policy_project :: nat
  notify_level :: NotifyLevel

text \<open>
  The query the method builds is
  \<^verbatim>\<open>User.objects.filter(Q(id=owner_id) | (Q(notify_policies__project_id=self.id) &
  ~Q(notify_policies__notify_level=NotifyLevel.ignore)))\<close>, the first disjunct only when
  \<^verbatim>\<open>self.owner_id\<close> is truthy, followed by two \<^verbatim>\<open>exclude\<close> calls and \<^verbatim>\<open>distinct()\<close>.

  The database evaluates it over the join of the user table with the notify policies: a user
  comes once per policy, and once without any when there is none (the join is an outer one).
\<close>

definition user_join :: "User list \<Rightarrow> NotifyPolicy list \<Rightarrow> (User \<times> NotifyPolicy option) list" where
  "user_join users policies =
     concat (map (\<lambda>u. case filter (\<lambda>np. policy_user np = user_id u) policies of
                         [] \<Rightarrow> [(u, None)]
                       | nps \<Rightarrow> map (\<lambda>np. (u, Some np)) nps) users)"

text \<open>
  \<^verbatim>\<open>Q(notify_policies__project_id=self.id)\<close> is a condition on the joined policy row; with a
  null id it is \<^verbatim>\<open>IS NULL\<close>.
\<close>

definition policy_of_project :: "nat option \<Rightarrow> NotifyPolicy option \<Rightarrow> bool" where
  "policy_of_project pid np =
     (case pid of
        None \<Rightarrow> np = None
      | Some p \<Rightarrow> (case np of None \<Rightarrow> False | Some x \<Rightarrow> policy_project x = p))"

text \<open>
  \<^verbatim>\<open>~Q(notify_policies__notify_level=NotifyLevel.ignore)\<close> stands in the same \<^verbatim>\<open>filter\<close>
  call as the condition on \<^verbatim>\<open>notify_policies__project_id\<close>. The ORM compiles a negated lookup
  across a multi-valued relation to
  \<^verbatim>\<open>NOT (users_user.id IN (SELECT U1.user_id FROM notifications_notifypolicy U1
  WHERE U1.notify_level = <ignore> AND U1.id = notifications_notifypolicy.id))\<close>, restricted to
  the policy row of the join since that join is in use: it holds unless the joined policy is
  at the ignore level.
\<close>

definition policy_ignores :: "NotifyPolicy option \<Rightarrow> bool" where
  "policy_ignores np = (case np of None \<Rightarrow> False | Some x \<Rightarrow> notify_level x = Ignore)"

text \<open>\<^verbatim>\<open>Project._get_q_watchers\<close>, as a condition on a row of the join.\<close>

definition q_watchers :: "Project \<Rightarrow> User \<times> NotifyPolicy option \<Rightarrow> bool" where
  "q_watchers self = (\<lambda>(u, np).
     policy_of_project (project_id self) np \<and> \<not> policy_ignores np)"

text \<open>\<^verbatim>\<open>if self.owner_id:\<close> holds for an id that is neither \<open>None\<close> nor 0.\<close>

definition q_owner :: "Project \<Rightarrow> User \<times> NotifyPolicy option \<Rightarrow> bool" where
  "q_owner self = (\<lambda>(u, np).
     case owner_id self of
       None \<Rightarrow> False
     | Some owner \<Rightarrow> owner \<noteq> 0 \<and> user_id u = owner)"

definition get_related_people :: "User list \<Rightarrow> NotifyPolicy list \<Rightarrow> Project \<Rightarrow> User list" where
  "get_related_people users policies self =
     (let related_people = filter (\<lambda>row. q_owner self row \<or> q_watchers self row)
                             (user_join users policies);
          related_people = filter (\<lambda>(u, np). \<not> (is_active u = False)) related_people;
          related_people = filter (\<lambda>(u, np). \<not> (is_system u = True)) related_people;
          related_people = remdups (map fst related_people)
      in related_people)"

text \<open>
  The set the specification describes: the owner, when present, and the users whose notify
  policy for the project is not at the ignore level, without inactive and system users.
\<close>

definition related_people_spec :: "User list \<Rightarrow> NotifyPolicy list \<Rightarrow> Project \<Rightarrow> User set" where
  "related_people_spec users policies P =
     {u \<in> set users. is_active u \<and> \<not> is_system u \<and>
        (owner_id P = Some (user_id u) \<or>
         (\<exists>np \<in> set policies. policy_user np = user_id u \<and>
             Some (policy_project np) = project_id P \<and> notify_level np \<noteq> Ignore))}"

text \<open>
  Users and policies to instantiate the theorem with: user 2 watches project 1 and ignores
  project 2, user 3 ignores project 1, user 4 watches it but is inactive; user 1 owns it.
\<close>

definition demo_users :: "User list" where
  "demo_users =
     [\<lparr>user_id = 1, username = ''admin'', is_active = True, is_system = False\<rparr>,
      \<lparr>user_id = 2, username = ''alice'', is_active = True, is_system = False\<rparr>,
      \<lparr>user_id = 3, username = ''bob'', is_active = True, is_system = False\<rparr>,
      \<lparr>user_id = 4, username = ''carol'', is_active = False, is_system = False\<rparr>]"

definition demo_policies :: "NotifyPolicy list" where
  "demo_policies =
     [\<lparr>policy_user = 2, policy_project = 1, notify_level = Watch\<rparr>,
      \<lparr>policy_user = 2, policy_project = 2, notify_level = Ignore\<rparr>,
      \<lparr>policy_user = 3, policy_project = 1, notify_level = Ignore\<rparr>,
      \<lparr>policy_user = 4, policy_project = 1, notify_level = Watch\<rparr>]"

text \<open>
  A project that has not been saved yet: it has no id, and user 3 is set as its owner.
\<close>

definition demo_new_project :: Project where
  "demo_new_project = demo_project\<lparr>project_id := None, owner_id := Some 3\<rparr>"

section \<open>Project.save\<close>

text \<open>\<^verbatim>\<open>"{}-{}".format(base_slug, i)\<close> prints the integer in decimal.\<close>

function str_nat :: "nat \<Rightarrow> string" where
  "str_nat n = (if n < 10 then [''0123456789'' ! n] else str_nat (n div 10) @ [''0123456789'' ! (n mod 10)])"
  by pat_completeness auto
termination
  by (relation "measure (\<lambda>n. n)") auto

definition str_int :: "int \<Rightarrow> string" where
  "str_int i = (if i < 0 then CHR ''-'' # str_nat (nat (- i)) else str_nat (nat i))"

text \<open>
  The loop over \<^verbatim>\<open>arithmetic_progression()\<close>, a generator imported from
  \<^verbatim>\<open>taiga.base.utils.sequence\<close>: the parameter \<open>progression\<close> gives its values in order, and
  \<open>k\<close> counts the values consumed. \<open>slug_exists\<close> is
  \<^verbatim>\<open>type(self).objects.filter(slug=slug).exists()\<close>. Whether the loop ends depends on the
  generator, so it returns an option: \<open>None\<close> when it runs forever.
\<close>

partial_function (option) unique_slug_loop ::
  "(nat \<Rightarrow> int) \<Rightarrow> (string \<Rightarrow> bool) \<Rightarrow> string \<Rightarrow> nat \<Rightarrow> string \<Rightarrow> string option" where
  "unique_slug_loop progression slug_exists base_slug k new_slug =
     (if \<not> slug_exists new_slug \<or> progression k > 100 then Some new_slug
      else unique_slug_loop progression slug_exists base_slug (Suc k)
             (base_slug @ ''-'' @ str_int (progression k)))"

text \<open>
  \<^verbatim>\<open>super().save()\<close>: the row is written under its id, a new one for an unsaved instance.
  The database rejects a slug that another row has (\<^verbatim>\<open>unique=True\<close>) and a missing owner
  (\<^verbatim>\<open>null=False\<close>).
\<close>

definition fresh_project_id :: "Project list \<Rightarrow> nat" where
  "fresh_project_id objects =
     Suc (fold max (map (\<lambda>r. case project_id r of None \<Rightarrow> 0 | Some i \<Rightarrow> i) objects) 0)"

definition model_save :: "Project \<Rightarrow> Project list \<Rightarrow> error option \<times> Project \<times> Project list" where
  "model_save self objects =
     (if owner_id self = None \<or>
         (\<exists>r \<in> set objects. project_slug r = project_slug self \<and> project_id r \<noteq> project_id self)
      then (Some IntegrityError, self, objects)
      else
        case project_id self of
          None \<Rightarrow>
            (let self = self\<lparr>project_id := Some (fresh_project_id objects)\<rparr>
             in (None, self, objects @ [self]))
        | Some i \<Rightarrow>
            if \<exists>r \<in> set objects. project_id r = Some i
            then (None, self, map (\<lambda>r. if project_id r = Some i then self else r) objects)
            else (None, self, objects @ [self]))"

text \<open>
  \<^verbatim>\<open>Project.save\<close>. \<open>now\<close> is \<^verbatim>\<open>timezone.now()\<close>; \<open>slugify_uniquely\<close> is imported from
  \<^verbatim>\<open>taiga.base.utils.slug\<close> and gets the base name and the project table. The result is
  \<open>None\<close> when the slug loop does not end; otherwise the exception raised, if any, the
  instance and the table.
\<close>

definition set_modified_date :: "nat \<Rightarrow> Project \<Rightarrow> Project" where
  "set_modified_date now self =
     (if \<not> importing self \<or> modified_date self = None then self\<lparr>modified_date := Some now\<rparr>
      else self)"

definition clear_videoconferences_extra_data :: "Project \<Rightarrow> Project" where
  "clear_videoconferences_extra_data self =
     (if videoconferences self = None \<or> videoconferences self = Some []
      then self\<lparr>videoconferences_extra_data := None\<rparr> else self)"

definition Project_save ::
  "nat \<Rightarrow> (string \<Rightarrow> Project list \<Rightarrow> string) \<Rightarrow> (nat \<Rightarrow> int) \<Rightarrow> User list \<Rightarrow>
   Project \<Rightarrow> Project list \<Rightarrow> (error option \<times> Project \<times> Project list) option" where
  "Project_save now slugify_uniquely arithmetic_progression users self objects =
     (let self = set_modified_date now self in
      if project_slug self = [] then
        (case (case owner_id self of None \<Rightarrow> None
               | Some i \<Rightarrow> find (\<lambda>u. user_id u = i) users) of
           None \<Rightarrow> Some (Some DoesNotExist, self, objects)
         | Some owner \<Rightarrow>
            (let base_name = username owner @ ''-'' @ project_name self;
                 base_slug = slugify_uniquely base_name objects
             in case unique_slug_loop arithmetic_progression
                       (\<lambda>new_slug. \<exists>r \<in> set objects. project_slug r = new_slug) base_slug 0 base_slug of
                  None \<Rightarrow> None
                | Some new_slug \<Rightarrow>
                    Some (model_save (clear_videoconferences_extra_data (self\<lparr>project_slug := new_slug\<rparr>))
                            objects)))
      else Some (model_save (clear_videoconferences_extra_data self) objects))"

text \<open>
  The invariant of a saved project: no videoconference extra data without a videoconference
  system, and a slug.
\<close>

definition saved_ok :: "Project \<Rightarrow> bool" where
  "saved_ok p =
     ((videoconferences p = None \<or> videoconferences p = Some [] \<longrightarrow>
         videoconferences_extra_data p = None) \<and>
      project_slug p \<noteq> [])"

text \<open>The project tables that successful saves build up, starting from the empty table.\<close>

inductive reachable :: "(string \<Rightarrow> Project list \<Rightarrow> string) \<Rightarrow> (nat \<Rightarrow> int) \<Rightarrow> Project list \<Rightarrow> bool"
  for slugify_uniquely :: "string \<Rightarrow> Project list \<Rightarrow> string" and arithmetic_progression :: "nat \<Rightarrow> int" where
  reachable_empty: "reachable slugify_uniquely arithmetic_progression []"
| reachable_save:
    "reachable slugify_uniquely arithmetic_progression objects \<Longrightarrow>
     Project_save now slugify_uniquely arithmetic_progression users self objects =
       Some (None, self', objects') \<Longrightarrow>
     reachable slugify_uniquely arithmetic_progression objects'"

text \<open>A slugifier and a generator to instantiate the theorems with, and an unsaved project.\<close>

definition demo_slugify_uniquely :: "string \<Rightarrow> Project list \<Rightarrow> string" where
  "demo_slugify_uniquely base_name objects = (if base_name = [] then ''null'' else base_name)"

definition demo_progression :: "nat \<Rightarrow> int" where
  "demo_progression k = int k + 1"

definition demo_unsaved :: Project where
  "demo_unsaved = \<lparr>
     is_backlog_activated = True, is_kanban_activated = False, is_wiki_activated = True,
     is_issues_activated = True, videoconferences = None,
     videoconferences_extra_data = Some ''room-1'',
     project_id = None, project_name = ''demo'', project_slug = [],
     owner_id = Some 1, modified_date = None, importing = False, creation_template = None,
     default_points = None, default_us_status = None, default_task_status = None,
     default_priority = None, default_severity = None, default_issue_status = None,
     default_issue_type = None\<rparr>"

section \<open>The cross-entity favourites feed\<close>

text \<open>
  \<^verbatim>\<open>get_favourites_list\<close> lives in \<^verbatim>\<open>taiga.users.services\<close>, which is not among the files
  under verification; only its test is. What follows is written from section 4.5 of the
  specification.
\<close>

datatype entity_kind = KProject | KUserStory | KTask | KIssue

definition kind_name :: "entity_kind \<Rightarrow> string" where
  "kind_name k =
     (case k of KProject \<Rightarrow> ''project'' | KUserStory \<Rightarrow> ''userstory''
      | KTask \<Rightarrow> ''task'' | KIssue \<Rightarrow> ''issue'')"

text \<open>
  Modelled from the spec: the polymorphic reference \<open>(entity_kind, entity_id)\<close> and the vote
  and watch stores keyed by it and the user. An entity has an owning project and a display
  name or subject.
\<close>

type_synonym entity_ref = "entity_kind \<times> nat"

record entity =
  entity_reference :: entity_ref
  entity_project :: nat
  entity_text :: string

record favourite_store =
  fav_entities :: "entity list"
  fav_votes :: "(entity_ref \<times> nat) list"
  fav_watches :: "(entity_ref \<times> nat) list"

record feed_item =
  item_type :: string
  item_action :: string
  item_id :: nat
  item_text :: string
  item_project :: nat

text \<open>
  Modelled from the spec: the \<open>q\<close> filter, a case-insensitive substring match against the
  entity's display name or subject.
\<close>

definition lower_char :: "char \<Rightarrow> char" where
  "lower_char c = (if CHR ''A'' \<le> c \<and> c \<le> CHR ''Z'' then char_of (of_char c + (32::nat)) else c)"

fun contains :: "string \<Rightarrow> string \<Rightarrow> bool" where
  "contains q [] = (q = [])"
| "contains q (c # cs) = (take (length q) (c # cs) = q \<or> contains q cs)"

definition icontains :: "string \<Rightarrow> string \<Rightarrow> bool" where
  "icontains q text = contains (map lower_char q) (map lower_char text)"

text \<open>
  Modelled from the spec: one feed item per vote, respectively watch, of the subject user
  whose entity exists, tagged with the entity's kind and the action.
\<close>

definition items_of :: "string \<Rightarrow> (entity_ref \<times> nat) list \<Rightarrow> entity list \<Rightarrow> nat \<Rightarrow> feed_item list" where
  "items_of action marks entities subject =
     concat (map (\<lambda>(ref, u).
        if u = subject then
          (case find (\<lambda>e. entity_reference e = ref) entities of
             None \<Rightarrow> []
           | Some e \<Rightarrow> [\<lparr>item_type = kind_name (fst ref), item_action = action,
                          item_id = snd ref, item_text = entity_text e,
                          item_project = entity_project e\<rparr>])
        else []) marks)"

text \<open>
  Modelled from the spec: \<open>get_favourites(subject_user, viewer_user, type?, action?, q?)\<close>:
  the votes and the watches of the subject user merged into one list, restricted by the
  \<open>type\<close>, \<open>action\<close> and \<open>q\<close> filters that are given, and without the items whose owning project
  the viewer cannot view. \<open>can_view\<close> is the authorization collaborator of section 6.
\<close>

definition get_favourites ::
  "(nat \<Rightarrow> nat \<Rightarrow> bool) \<Rightarrow> favourite_store \<Rightarrow> nat \<Rightarrow> nat \<Rightarrow>
   string option \<Rightarrow> string option \<Rightarrow> string option \<Rightarrow> feed_item list" where
  "get_favourites can_view store subject viewer type_filter action_filter q =
     filter (\<lambda>item.
        (case type_filter of None \<Rightarrow> True | Some t \<Rightarrow> item_type item = t) \<and>
        (case action_filter of None \<Rightarrow> True | Some a \<Rightarrow> item_action item = a) \<and>
        (case q of None \<Rightarrow> True | Some s \<Rightarrow> icontains s (item_text item)) \<and>
        can_view viewer (item_project item))
       (items_of ''vote'' (fav_votes store) (fav_entities store) subject @
        items_of ''watch'' (fav_watches store) (fav_entities store) subject)"

text \<open>
  The scenario of \<^verbatim>\<open>test_get_favourites_list\<close>: user \<open>a\<close> votes on project \<open>p\<close> and on a user
  story, a task and an issue of \<open>p\<close>, and watches the same four.
\<close>

definition favourites_scenario :: "nat \<Rightarrow> nat \<Rightarrow> nat \<Rightarrow> nat \<Rightarrow> nat \<Rightarrow> favourite_store" where
  "favourites_scenario a p us t i = \<lparr>
     fav_entities =
       [\<lparr>entity_reference = (KProject, p), entity_project = p, entity_text = ''Testing project''\<rparr>,
        \<lparr>entity_reference = (KUserStory, us), entity_project = p, entity_text = ''Testing user story''\<rparr>,
        \<lparr>entity_reference = (KTask, t), entity_project = p, entity_text = ''Testing task''\<rparr>,
        \<lparr>entity_reference = (KIssue, i), entity_project = p, entity_text = ''Testing issue''\<rparr>],
     fav_votes = [((KProject, p), a), ((KUserStory, us), a), ((KTask, t), a), ((KIssue, i), a)],
     fav_watches = [((KProject, p), a), ((KUserStory, us), a), ((KTask, t), a), ((KIssue, i), a)]\<rparr>"

section \<open>Verified properties\<close>

subsection \<open>apply_to_project needs a saved project\<close>

lemma for_each_no_exception:
  assumes "\<And>x s. fst (body x s) \<noteq> Some (Exception m)"
  shows "fst (for_each body xs s) \<noteq> Some (Exception m)"
proof (induction xs arbitrary: s)
  case Nil
  then show ?case by simp
next
  case (Cons x xs)
  show ?case
  proof (cases "body x s")
    case (Pair r s')
    show ?thesis
    proof (cases r)
      case None
      with Pair Cons show ?thesis by simp
    next
      case (Some e)
      with Pair assms[of x s] show ?thesis by simp
    qed
  qed
qed

lemma run_no_exception:
  assumes "\<And>c s. c \<in> set cs \<Longrightarrow> fst (c s) \<noteq> Some (Exception m)"
  shows "fst (run cs s) \<noteq> Some (Exception m)"
  using assms
proof (induction cs arbitrary: s)
  case Nil
  then show ?case by simp
next
  case (Cons c cs)
  show ?case
  proof (cases "c s")
    case (Pair r s')
    show ?thesis
    proof (cases r)
      case None
      with Pair Cons show ?thesis by simp
    next
      case (Some e)
      with Pair Cons.prems[of c s] show ?thesis by simp
    qed
  qed
qed

lemma objects_create_no_exception:
  "fst (objects_create pre_save clash p d tbl) \<noteq> Some (Exception m)"
  by (simp add: objects_create_def Let_def)

lemma for_json_create_no_exception:
  "fst (for_json (objects_create pre_save clash p) js tbl) \<noteq> Some (Exception m)"
  by (cases js) (simp_all add: for_json_def for_each_no_exception objects_create_no_exception)

lemma on_table_no_exception:
  assumes "\<And>t. fst (c t) \<noteq> Some (Exception m)"
  shows "fst (on_table get put c s) \<noteq> Some (Exception m)"
proof (cases s)
  case (Pair project d)
  obtain r t' where c: "c (get d) = (r, t')" by (cases "c (get d)")
  with assms[of "get d"] Pair show ?thesis by (simp add: on_table_def)
qed

lemma objects_get_no_exception: "objects_get n p tbl \<noteq> Inl (Exception m)"
  by (simp add: objects_get_def split: list.splits)

lemma default_option_no_exception: "default_option self key \<noteq> Inl (Exception m)"
  by (simp add: default_option_def split: option.splits)

lemma assign_default_no_exception:
  "fst (assign_default snap objects setter self key p s) \<noteq> Some (Exception m)"
  using objects_get_no_exception default_option_no_exception
  by (cases s) (auto simp: assign_default_def split: sum.splits)

lemma copy_settings_no_exception: "fst (copy_settings self s) \<noteq> Some (Exception m)"
  by (cases s) (simp add: copy_settings_def)

text \<open>
  Claim C4. For every template and every project without a persisted identity
  (\<^verbatim>\<open>project.id is None\<close>), \<^verbatim>\<open>apply_to_project\<close> raises its exception with the project and
  the database exactly as they were: nothing was assigned and no row was created. For every
  saved project the call gets past this check: whatever it does afterwards, it does not raise
  that exception.
\<close>

theorem apply_to_project_requires_saved_project:
  "(project_id project = None \<longrightarrow>
      apply_to_project slugify self (project, d) =
        (Some (Exception ''Project need an id (must be a saved project)''), (project, d)))
   \<and> (project_id project \<noteq> None \<longrightarrow>
      fst (apply_to_project slugify self (project, d)) \<noteq>
        Some (Exception ''Project need an id (must be a saved project)''))"
proof (intro conjI impI)
  assume "project_id project = None"
  then show "apply_to_project slugify self (project, d) =
        (Some (Exception ''Project need an id (must be a saved project)''), (project, d))"
    by (simp add: apply_to_project_def)
next
  assume "project_id project \<noteq> None"
  then obtain p where p: "project_id project = Some p" by auto
  show "fst (apply_to_project slugify self (project, d)) \<noteq>
        Some (Exception ''Project need an id (must be a saved project)'')"
    unfolding apply_to_project_def using p
    apply (simp only: prod.case option.case)
    apply (rule run_no_exception)
    apply (simp only: set_simps insert_iff empty_iff)
    apply (elim disjE)
    apply (simp_all only: on_table_no_exception for_json_create_no_exception
        assign_default_no_exception copy_settings_no_exception not_False_eq_True)
    done
qed

theorem apply_to_project_requires_saved_project_witness:
  "project_id (demo_target\<lparr>project_id := None\<rparr>) = None \<and>
   apply_to_project demo_slugify demo_template (demo_target\<lparr>project_id := None\<rparr>, demo_db) =
     (Some (Exception ''Project need an id (must be a saved project)''),
      (demo_target\<lparr>project_id := None\<rparr>, demo_db)) \<and>
   project_id demo_target \<noteq> None \<and>
   fst (apply_to_project demo_slugify demo_template (demo_target, demo_db)) \<noteq>
     Some (Exception ''Project need an id (must be a saved project)'')"
proof -
  have a: "project_id (demo_target\<lparr>project_id := None\<rparr>) = None" by simp
  have b: "project_id demo_target \<noteq> None" by (simp add: demo_target_def)
  from a b
    apply_to_project_requires_saved_project[of "demo_target\<lparr>project_id := None\<rparr>"
      demo_slugify demo_template demo_db]
    apply_to_project_requires_saved_project[of demo_target demo_slugify demo_template demo_db]
  show ?thesis by blast
qed

subsection \<open>The template round trip\<close>

lemma fold_max_ge: "(m::nat) \<le> fold max xs m"
  by (induction xs arbitrary: m) (auto intro: order_trans[OF max.cobounded2])

lemma fold_max_mem: "x \<in> set xs \<Longrightarrow> (x::nat) \<le> fold max xs m"
proof (induction xs arbitrary: m)
  case Nil
  then show ?case by simp
next
  case (Cons a xs)
  show ?case
  proof (cases "x = a")
    case True
    have "max a m \<le> fold max xs (max a m)" by (rule fold_max_ge)
    with True show ?thesis by simp
  next
    case False
    with Cons show ?thesis by simp
  qed
qed

lemma fresh_id_gt: "r \<in> set tbl \<Longrightarrow> row_id r < fresh_id tbl"
  using fold_max_mem[of "row_id r" "map row_id tbl" 0] by (simp add: fresh_id_def less_Suc_eq_le)

lemma name_safe_plain: "name_safe plain_save unique_name"
  by (simp add: name_safe_def plain_save_def unique_name_def)

lemma name_safe_none: "name_safe plain_save no_constraint"
  by (simp add: name_safe_def plain_save_def no_constraint_def)

lemma name_safe_status:
  assumes "\<forall>n sl. slugify n sl \<notin> set sl"
  shows "name_safe (status_save slugify) unique_name_slug"
  unfolding name_safe_def status_save_def unique_name_slug_def
proof (intro allI conjI ballI impI)
  fix d :: "'a status_cols_scheme" and qs :: "'a status_cols_scheme row list"
  show "name (d\<lparr>slug := slugify (name d) (map (\<lambda>r. slug (row_data r)) qs)\<rparr>) = name d" by simp
next
  fix d :: "'a status_cols_scheme" and qs :: "'a status_cols_scheme row list" and r
  assume r: "r \<in> set qs"
    and c: "name (row_data r) = name (d\<lparr>slug := slugify (name d) (map (\<lambda>r. slug (row_data r)) qs)\<rparr>) \<or>
            slug (row_data r) = slug (d\<lparr>slug := slugify (name d) (map (\<lambda>r. slug (row_data r)) qs)\<rparr>)"
  from r have "slug (row_data r) \<in> set (map (\<lambda>r. slug (row_data r)) qs)" by force
  with assms have "slug (row_data r) \<noteq> slugify (name d) (map (\<lambda>r. slug (row_data r)) qs)" by metis
  with c show "name (row_data r) = name d" by simp
qed

lemma objects_create_ok:
  assumes safe: "name_safe pre_save clash"
    and new: "\<forall>r \<in> set (filter_project q tbl). name (row_data r) \<noteq> name d"
  shows "\<exists>r. objects_create pre_save clash q d tbl = (None, tbl @ [r]) \<and>
             name (row_data r) = name d \<and> row_project r = q \<and> row_id r = fresh_id tbl"
proof -
  let ?d = "pre_save d (filter_project q tbl)"
  have "\<not> (\<exists>r \<in> set tbl. row_project r = q \<and> clash (row_data r) ?d)"
  proof
    assume "\<exists>r \<in> set tbl. row_project r = q \<and> clash (row_data r) ?d"
    then obtain r where r: "r \<in> set tbl" "row_project r = q" "clash (row_data r) ?d" by blast
    then have m: "r \<in> set (filter_project q tbl)" by (simp add: filter_project_def)
    with safe r(3) have "name (row_data r) = name d" unfolding name_safe_def by blast
    with new m show False by blast
  qed
  moreover from safe have "name ?d = name d" unfolding name_safe_def by blast
  ultimately show ?thesis by (simp add: objects_create_def Let_def)
qed

lemma for_each_create:
  assumes safe: "name_safe pre_save clash"
    and dist: "distinct (map name ds)"
    and new: "\<forall>r \<in> set (filter_project q tbl). name (row_data r) \<notin> set (map name ds)"
  shows "\<exists>news. for_each (objects_create pre_save clash q) ds tbl = (None, tbl @ news) \<and>
                created q ds tbl news"
  using dist new
proof (induction ds arbitrary: tbl)
  case Nil
  then show ?case by (simp add: created_def)
next
  case (Cons d ds)
  from Cons.prems(2) have "\<forall>r \<in> set (filter_project q tbl). name (row_data r) \<noteq> name d" by simp
  from objects_create_ok[OF safe this] obtain r where
    r: "objects_create pre_save clash q d tbl = (None, tbl @ [r])"
       "name (row_data r) = name d" "row_project r = q" "row_id r = fresh_id tbl" by blast
  have d': "distinct (map name ds)" using Cons.prems(1) by simp
  have new': "\<forall>x \<in> set (filter_project q (tbl @ [r])). name (row_data x) \<notin> set (map name ds)"
    using Cons.prems r(2) by (auto simp: filter_project_def)
  from Cons.IH[OF d' new'] obtain news where
    n: "for_each (objects_create pre_save clash q) ds (tbl @ [r]) = (None, (tbl @ [r]) @ news)"
       "created q ds (tbl @ [r]) news" by blast
  have "for_each (objects_create pre_save clash q) (d # ds) tbl = (None, tbl @ (r # news))"
    using r(1) n(1) by simp
  moreover have "created q (d # ds) tbl (r # news)"
  proof -
    from n(2) have a: "map (\<lambda>r. name (row_data r)) news = map name ds"
      and b: "\<forall>x \<in> set news. row_project x = q"
      and c: "\<forall>x \<in> set news. \<forall>r' \<in> set (tbl @ [r]). row_id r' < row_id x"
      and e: "distinct (map row_id news)"
      by (simp_all add: created_def)
    have 1: "map (\<lambda>r. name (row_data r)) (r # news) = map name (d # ds)" using a r(2) by simp
    have 2: "\<forall>x \<in> set (r # news). row_project x = q" using b r(3) by simp
    have r_gt: "\<forall>r' \<in> set tbl. row_id r' < row_id r" using fresh_id_gt r(4) by metis
    have 3: "\<forall>x \<in> set (r # news). \<forall>r' \<in> set tbl. row_id r' < row_id x"
      using c r_gt by simp
    have "row_id r \<notin> set (map row_id news)"
    proof
      assume "row_id r \<in> set (map row_id news)"
      then obtain x where "x \<in> set news" "row_id x = row_id r" by auto
      with c show False by force
    qed
    then have 4: "distinct (map row_id (r # news))" using e by simp
    show ?thesis unfolding created_def using 1 2 3 4 by blast
  qed
  ultimately show ?case by blast
qed

lemma related_all_names:
  "set (map (\<lambda>r. name (row_data r)) (related_all (Some p) tbl)) =
   set (map (\<lambda>r. name (row_data r)) (filter_project p tbl))"
  by (simp add: related_all_def)

lemma related_all_length: "length (related_all (Some p) tbl) = length (filter_project p tbl)"
  by (simp add: related_all_def)

lemma related_all_distinct:
  assumes "distinct (map (\<lambda>r. name (row_data r)) (filter_project p tbl))"
  shows "distinct (map (\<lambda>r. name (row_data r)) (related_all (Some p) tbl))"
  using assms by (simp add: related_all_def distinct_map)

lemma created_filter:
  assumes "created q ds tbl news" and "filter_project q tbl = []"
  shows "filter_project q (tbl @ news) = news"
proof -
  from assms(1) have "\<forall>r \<in> set news. row_project r = q" by (simp add: created_def)
  then have "filter (\<lambda>r. row_project r = q) news = news" by (simp add: filter_id_conv)
  with assms(2) show ?thesis by (simp add: filter_project_def)
qed

lemma created_length:
  assumes "created q ds tbl news"
  shows "length news = length ds"
proof -
  from assms have "map (\<lambda>r. name (row_data r)) news = map name ds" by (simp add: created_def)
  then have "length (map (\<lambda>r. name (row_data r)) news) = length (map name ds)" by simp
  then show ?thesis by simp
qed

lemma find_app:
  "find P (xs @ ys) = (case find P xs of None \<Rightarrow> find P ys | Some x \<Rightarrow> Some x)"
  by (induction xs) simp_all

lemma by_id_created:
  assumes c: "created q ds tbl news" and r: "r \<in> set news"
  shows "by_id (row_id r) (tbl @ news) = Some r"
proof -
  from c have gt: "\<forall>x \<in> set news. \<forall>r' \<in> set tbl. row_id r' < row_id x"
    and di: "distinct (map row_id news)" by (simp_all add: created_def)
  have "find (\<lambda>x. row_id x = row_id r) tbl = None"
    using gt r by (force simp: find_None_iff)
  moreover have "find (\<lambda>x. row_id x = row_id r) news = Some r"
    using di r
  proof (induction news)
    case Nil
    then show ?case by simp
  next
    case (Cons a news)
    then show ?case by (cases "a = r") force+
  qed
  ultimately show ?thesis by (simp add: by_id_def find_app)
qed

lemma filter_name_distinct:
  assumes "distinct (map f xs)" and "x \<in> set xs"
  shows "filter (\<lambda>y. f y = f x) xs = [x]"
  using assms
proof (induction xs)
  case Nil
  then show ?case by simp
next
  case (Cons a xs)
  show ?case
  proof (cases "a = x")
    case True
    with Cons.prems have "f x \<notin> f ` set xs" by simp
    then have "\<forall>y \<in> set xs. f y \<noteq> f x" by (metis imageI)
    then have "filter (\<lambda>y. f y = f x) xs = []" by (simp add: filter_empty_conv)
    with True show ?thesis by simp
  next
    case False
    with Cons.prems have "x \<in> set xs" "f a \<noteq> f x" by force+
    with Cons show ?thesis by simp
  qed
qed

lemma objects_get_created:
  assumes c: "created q ds tbl news" and e: "filter_project q tbl = []"
    and dist: "distinct (map name ds)" and n: "n \<in> set (map name ds)"
  shows "\<exists>r \<in> set news. objects_get (Some n) q (tbl @ news) = Inr r \<and> name (row_data r) = n \<and>
           r \<notin> set tbl \<and> row_project r = q"
proof -
  from c have nm: "map (\<lambda>r. name (row_data r)) news = map name ds"
    and pr: "\<forall>r \<in> set news. row_project r = q" by (simp_all add: created_def)
  from n nm obtain r where r: "r \<in> set news" "name (row_data r) = n" by (metis (no_types, lifting) imageE list.set_map)
  from dist nm have d: "distinct (map (\<lambda>r. name (row_data r)) news)" by simp
  have f1: "filter (\<lambda>x. row_project x = q \<and> Some (name (row_data x)) = Some n) tbl = []"
    using e by (auto simp: filter_project_def filter_empty_conv)
  have "filter (\<lambda>x. row_project x = q \<and> Some (name (row_data x)) = Some n) news =
        filter (\<lambda>x. name (row_data x) = name (row_data r)) news"
    using pr r(2) by (intro filter_cong) auto
  also have "\<dots> = [r]" using filter_name_distinct[OF d r(1)] .
  finally have "objects_get (Some n) q (tbl @ news) = Inr r"
    using f1 by (simp add: objects_get_def)
  moreover have "r \<notin> set tbl"
  proof
    assume "r \<in> set tbl"
    with pr r(1) have "r \<in> set (filter_project q tbl)" by (simp add: filter_project_def)
    with e show False by simp
  qed
  ultimately show ?thesis using r pr by blast
qed

lemma snapshot_truthy: "truthy_list (snapshot P tbl) = (related_all (project_id P) tbl \<noteq> [])"
  by (simp add: truthy_list_def snapshot_def)

lemma related_all_empty: "(related_all (Some p) tbl = []) = (filter_project p tbl = [])"
  using related_all_length[of p tbl] by (metis length_0_conv)

lemma taxonomy_round_trip:
  assumes safe: "name_safe pre_save clash"
    and P: "project_id P = Some p"
    and e: "filter_project q tbl = []"
    and u: "distinct (map (\<lambda>r. name (row_data r)) (filter_project p tbl))"
    and us: "default_usable p ptr tbl"
    and g: "getattr_name ptr tbl = Inr v"
  shows "\<exists>tbl'. for_json (objects_create pre_save clash q) (snapshot P tbl) tbl = (None, tbl') \<and>
           count_rows q tbl' = count_rows p tbl \<and>
           (filter_project p tbl \<noteq> [] \<longrightarrow>
              (\<exists>r. objects_get v q tbl' = Inr r \<and> default_copied q ptr (Some (row_id r)) tbl tbl'))"
proof -
  let ?rows = "related_all (Some p) tbl"
  let ?ds = "map row_data ?rows"
  have names: "map name ?ds = map (\<lambda>r. name (row_data r)) ?rows" by simp
  have dist: "distinct (map name ?ds)"
    using related_all_distinct[OF u] by (simp add: comp_def)
  have new: "\<forall>r \<in> set (filter_project q tbl). name (row_data r) \<notin> set (map name ?ds)"
    using e by simp
  from for_each_create[OF safe dist new] obtain news where
    run: "for_each (objects_create pre_save clash q) ?ds tbl = (None, tbl @ news)"
    and c: "created q ?ds tbl news" by blast
  have 1: "for_json (objects_create pre_save clash q) (snapshot P tbl) tbl = (None, tbl @ news)"
    using run P by (simp add: for_json_def snapshot_def)
  have 2: "count_rows q (tbl @ news) = count_rows p tbl"
    using created_filter[OF c e] created_length[OF c] related_all_length[of p tbl]
    by (simp add: count_rows_def)
  have 3: "\<exists>r. objects_get v q (tbl @ news) = Inr r \<and>
               default_copied q ptr (Some (row_id r)) tbl (tbl @ news)"
    if ne: "filter_project p tbl \<noteq> []"
  proof -
    from us ne obtain k r0 where k: "ptr = Some k" "by_id k tbl = Some r0"
      and mem: "name (row_data r0) \<in> set (map (\<lambda>x. name (row_data x)) (filter_project p tbl))"
      by (auto simp: default_usable_def split: option.splits)
    from g k have v: "v = Some (name (row_data r0))" by (simp add: getattr_name_def)
    from mem have "name (row_data r0) \<in> set (map name ?ds)"
      using related_all_names[of p tbl] by (simp add: comp_def)
    from objects_get_created[OF c e dist this] obtain r where
      r: "r \<in> set news" "objects_get (Some (name (row_data r0))) q (tbl @ news) = Inr r"
         "name (row_data r) = name (row_data r0)" "r \<notin> set tbl" "row_project r = q" by blast
    have "by_id (row_id r) (tbl @ news) = Some r" using by_id_created[OF c r(1)] .
    then have "default_copied q ptr (Some (row_id r)) tbl (tbl @ news)"
      using k r(3,4,5) by (simp add: default_copied_def)
    with r(2) v show ?thesis by blast
  qed
  from 1 2 3 show ?thesis by blast
qed

lemma for_each_create_roles:
  "\<exists>news. for_each (objects_create plain_save no_constraint q) ds tbl = (None, tbl @ news) \<and>
          length news = length ds \<and> (\<forall>r \<in> set news. row_project r = q)"
proof (induction ds arbitrary: tbl)
  case Nil
  then show ?case by simp
next
  case (Cons d ds)
  let ?r = "\<lparr>row_id = fresh_id tbl, row_project = q, row_data = d\<rparr>"
  have s: "objects_create plain_save no_constraint q d tbl = (None, tbl @ [?r])"
    by (simp add: objects_create_def plain_save_def no_constraint_def)
  from Cons[of "tbl @ [?r]"] obtain news where
    n: "for_each (objects_create plain_save no_constraint q) ds (tbl @ [?r]) = (None, (tbl @ [?r]) @ news)"
       "length news = length ds" "\<forall>r \<in> set news. row_project r = q" by blast
  have "for_each (objects_create plain_save no_constraint q) (d # ds) tbl = (None, tbl @ (?r # news))"
    using s n(1) by simp
  moreover have "length (?r # news) = length (d # ds)" using n(2) by simp
  moreover have "\<forall>r \<in> set (?r # news). row_project r = q" using n(3) by simp
  ultimately show ?case by blast
qed

lemma roles_round_trip:
  assumes P: "project_id P = Some p" and e: "filter_project q tbl = []"
  shows "\<exists>tbl'. for_json (objects_create plain_save no_constraint q) (snapshot_roles P tbl) tbl = (None, tbl') \<and>
           count_rows q tbl' = count_rows p tbl"
proof -
  let ?ds = "map row_data (filter_project p tbl)"
  from for_each_create_roles[of q ?ds tbl] obtain news where
    n: "for_each (objects_create plain_save no_constraint q) ?ds tbl = (None, tbl @ news)"
       "length news = length ?ds" "\<forall>r \<in> set news. row_project r = q" by blast
  from n(3) have "filter (\<lambda>r. row_project r = q) news = news" by (simp add: filter_id_conv)
  with e have "filter_project q (tbl @ news) = news" by (simp add: filter_project_def)
  with n(2) have "count_rows q (tbl @ news) = count_rows p tbl" by (simp add: count_rows_def)
  moreover have "for_json (objects_create plain_save no_constraint q) (snapshot_roles P tbl) tbl = (None, tbl @ news)"
    using n(1) P by (simp add: for_json_def snapshot_roles_def related_roles_def)
  ultimately show ?thesis by blast
qed

lemma assign_default_step:
  assumes opt: "default_option self key = Inr v"
    and ok: "truthy_list snap \<longrightarrow> (\<exists>r. objects_get v q (objects d) = Inr r \<and> Q (Some (row_id r)))"
    and same: "setter old project = project"
  shows "\<exists>ptr'. assign_default snap objects setter self key q (project, d) = (None, (setter ptr' project, d)) \<and>
           (if truthy_list snap then Q ptr' else ptr' = old)"
proof (cases "truthy_list snap")
  case True
  with ok obtain r where r: "objects_get v q (objects d) = Inr r" "Q (Some (row_id r))" by blast
  have "assign_default snap objects setter self key q (project, d) = (None, (setter (Some (row_id r)) project, d))"
    using True opt r(1) by (simp add: assign_default_def)
  with r(2) True show ?thesis by auto
next
  case False
  then have "assign_default snap objects setter self key q (project, d) = (None, (setter old project, d))"
    using same by (simp add: assign_default_def)
  with False show ?thesis by auto
qed

lemma load_default_owner_role_fields:
  assumes "load_default_owner_role d P s = (None, s')"
  shows "\<exists>x. s' = s\<lparr>default_owner_role := x\<rparr>"
  using assms
  by (auto simp: load_default_owner_role_def split: option.splits list.splits)

lemma load_fields:
  assumes "load_data_from_project d P T = (None, T')"
  shows "\<exists>m. default_options_dict d P = Inr m \<and> default_options T' = Some m \<and>
           us_statuses T' = snapshot P (UserStoryStatus_objects d) \<and>
           points T' = snapshot P (Points_objects d) \<and>
           task_statuses T' = snapshot P (TaskStatus_objects d) \<and>
           issue_statuses T' = snapshot P (IssueStatus_objects d) \<and>
           issue_types T' = snapshot P (IssueType_objects d) \<and>
           priorities T' = snapshot P (Priority_objects d) \<and>
           severities T' = snapshot P (Severity_objects d) \<and>
           roles T' = snapshot_roles P (Role_objects d)"
proof (cases "default_options_dict d P")
  case (Inl e)
  with assms show ?thesis
    by (simp add: load_data_from_project_def load_settings_def load_default_options_def)
next
  case (Inr m)
  define s where "s = T\<lparr>is_backlog_activated := is_backlog_activated P,
           is_kanban_activated := is_kanban_activated P,
           is_wiki_activated := is_wiki_activated P,
           is_issues_activated := is_issues_activated P,
           videoconferences := videoconferences P,
           videoconferences_extra_data := videoconferences_extra_data P,
           default_options := Some m,
           us_statuses := snapshot P (UserStoryStatus_objects d),
           points := snapshot P (Points_objects d),
           task_statuses := snapshot P (TaskStatus_objects d),
           issue_statuses := snapshot P (IssueStatus_objects d),
           issue_types := snapshot P (IssueType_objects d),
           priorities := snapshot P (Priority_objects d),
           severities := snapshot P (Severity_objects d),
           roles := snapshot_roles P (Role_objects d)\<rparr>"
  have "load_data_from_project d P T = load_default_owner_role d P s"
    using Inr
    by (simp add: load_data_from_project_def load_settings_def load_default_options_def s_def
        split: prod.splits option.splits)
  with assms have "load_default_owner_role d P s = (None, T')" by simp
  from load_default_owner_role_fields[OF this] obtain x where "T' = s\<lparr>default_owner_role := x\<rparr>" ..
  then show ?thesis using Inr by (simp add: s_def)
qed

lemma default_options_dict_keys:
  assumes "default_options_dict d P = Inr m"
  shows "\<exists>v1 v2 v3 v4 v5 v6 v7.
     getattr_name (default_points P) (Points_objects d) = Inr v1 \<and> m ''points'' = Some v1 \<and>
     getattr_name (default_us_status P) (UserStoryStatus_objects d) = Inr v2 \<and> m ''us_status'' = Some v2 \<and>
     getattr_name (default_task_status P) (TaskStatus_objects d) = Inr v3 \<and> m ''task_status'' = Some v3 \<and>
     getattr_name (default_issue_status P) (IssueStatus_objects d) = Inr v4 \<and> m ''issue_status'' = Some v4 \<and>
     getattr_name (default_issue_type P) (IssueType_objects d) = Inr v5 \<and> m ''issue_type'' = Some v5 \<and>
     getattr_name (default_priority P) (Priority_objects d) = Inr v6 \<and> m ''priority'' = Some v6 \<and>
     getattr_name (default_severity P) (Severity_objects d) = Inr v7 \<and> m ''severity'' = Some v7"
  using assms
  by (auto simp: default_options_dict_def and_then_def split: sum.splits)

lemma on_table_ok:
  assumes "c (get d) = (None, t')"
  shows "on_table get put c (project, d) = (None, (project, put t' d))"
  using assms by (simp add: on_table_def)

lemma default_option_key:
  assumes "default_options T' = Some m" and "m key = Some v"
  shows "default_option T' key = Inr v"
  using assms by (simp add: default_option_def)

lemma taxonomy_default:
  assumes rt: "filter_project p tbl \<noteq> [] \<longrightarrow>
              (\<exists>r. objects_get v q tbl' = Inr r \<and> default_copied q ptr (Some (row_id r)) tbl tbl')"
    and P: "project_id P = Some p"
    and opt: "default_option T' key = Inr v"
    and same: "setter old project = project"
    and tb: "objects d' = tbl'"
  shows "\<exists>ptr'. assign_default (snapshot P tbl) objects setter T' key q (project, d') =
                  (None, (setter ptr' project, d')) \<and>
                default_after p q ptr old ptr' tbl tbl'"
proof -
  have tr: "truthy_list (snapshot P tbl) = (filter_project p tbl \<noteq> [])"
    using P by (simp add: snapshot_truthy related_all_empty)
  have ok: "truthy_list (snapshot P tbl) \<longrightarrow>
      (\<exists>r. objects_get v q (objects d') = Inr r \<and> (\<lambda>k. default_copied q ptr k tbl tbl') (Some (row_id r)))"
    using rt tr tb by simp
  note step = assign_default_step[where Q = "\<lambda>k. default_copied q ptr k tbl tbl'"
      and self = T' and key = key and v = v and snap = "snapshot P tbl" and q = q
      and objects = objects and d = d' and setter = setter and old = old and project = project]
  from step opt ok same obtain ptr' where
    "assign_default (snapshot P tbl) objects setter T' key q (project, d') = (None, (setter ptr' project, d'))"
    "if truthy_list (snapshot P tbl) then default_copied q ptr ptr' tbl tbl' else ptr' = old" by blast
  then show ?thesis using tr by (auto simp: default_after_def)
qed

lemma getattr_name_returns:
  assumes "ptr = None \<or> (\<exists>k r. ptr = Some k \<and> by_id k tbl = Some r)"
  shows "\<exists>v. getattr_name ptr tbl = Inr v"
  using assms by (auto simp: getattr_name_def)

lemma default_options_dict_returns:
  assumes "\<exists>v. getattr_name (default_points P) (Points_objects d) = Inr v"
    and "\<exists>v. getattr_name (default_us_status P) (UserStoryStatus_objects d) = Inr v"
    and "\<exists>v. getattr_name (default_task_status P) (TaskStatus_objects d) = Inr v"
    and "\<exists>v. getattr_name (default_issue_status P) (IssueStatus_objects d) = Inr v"
    and "\<exists>v. getattr_name (default_issue_type P) (IssueType_objects d) = Inr v"
    and "\<exists>v. getattr_name (default_priority P) (Priority_objects d) = Inr v"
    and "\<exists>v. getattr_name (default_severity P) (Severity_objects d) = Inr v"
  shows "\<exists>m. default_options_dict d P = Inr m"
proof -
  from assms obtain v1 v2 v3 v4 v5 v6 v7 where
    "getattr_name (default_points P) (Points_objects d) = Inr v1"
    "getattr_name (default_us_status P) (UserStoryStatus_objects d) = Inr v2"
    "getattr_name (default_task_status P) (TaskStatus_objects d) = Inr v3"
    "getattr_name (default_issue_status P) (IssueStatus_objects d) = Inr v4"
    "getattr_name (default_issue_type P) (IssueType_objects d) = Inr v5"
    "getattr_name (default_priority P) (Priority_objects d) = Inr v6"
    "getattr_name (default_severity P) (Severity_objects d) = Inr v7"
    by blast
  then show ?thesis by (simp add: default_options_dict_def and_then_def)
qed

text \<open>
  When loading returns: every default pointer that is set references an existing record, the
  owner exists, and the owner has either one membership in the project, with an existing
  role, or none while the project has a role.
\<close>

lemma load_data_from_project_returns:
  assumes defaults: "\<exists>m. default_options_dict d P = Inr m"
    and owner: "owner_id P = Some u" "find (\<lambda>x. user_id x = u) (User_objects d) = Some ow"
    and member:
      "(filter (\<lambda>m. Some (membership_project m) = project_id P \<and> membership_user m = Some (user_id ow))
          (Membership_objects d) = [] \<and> related_roles (project_id P) (Role_objects d) \<noteq> []) \<or>
       (\<exists>m r. filter (\<lambda>m. Some (membership_project m) = project_id P \<and> membership_user m = Some (user_id ow))
          (Membership_objects d) = [m] \<and> by_id (membership_role m) (Role_objects d) = Some r)"
  shows "\<exists>T'. load_data_from_project d P T = (None, T')"
proof -
  from defaults obtain m where m: "default_options_dict d P = Inr m" by blast
  define s where "s = T\<lparr>is_backlog_activated := is_backlog_activated P,
           is_kanban_activated := is_kanban_activated P,
           is_wiki_activated := is_wiki_activated P,
           is_issues_activated := is_issues_activated P,
           videoconferences := videoconferences P,
           videoconferences_extra_data := videoconferences_extra_data P,
           default_options := Some m,
           us_statuses := snapshot P (UserStoryStatus_objects d),
           points := snapshot P (Points_objects d),
           task_statuses := snapshot P (TaskStatus_objects d),
           issue_statuses := snapshot P (IssueStatus_objects d),
           issue_types := snapshot P (IssueType_objects d),
           priorities := snapshot P (Priority_objects d),
           severities := snapshot P (Severity_objects d),
           roles := snapshot_roles P (Role_objects d)\<rparr>"
  have l: "load_data_from_project d P T = load_default_owner_role d P s"
    using m
    by (simp add: load_data_from_project_def load_settings_def load_default_options_def s_def
        split: prod.splits option.splits)
  have ro: "roles s = Some (map row_data (related_roles (project_id P) (Role_objects d)))"
    by (simp add: s_def snapshot_roles_def)
  from member show ?thesis
  proof
    assume a: "filter (\<lambda>m. Some (membership_project m) = project_id P \<and> membership_user m = Some (user_id ow))
          (Membership_objects d) = [] \<and> related_roles (project_id P) (Role_objects d) \<noteq> []"
    then obtain r rs where "related_roles (project_id P) (Role_objects d) = r # rs"
      by (cases "related_roles (project_id P) (Role_objects d)") auto
    with a ro owner l show ?thesis by (simp add: load_default_owner_role_def)
  next
    assume "\<exists>m r. filter (\<lambda>m. Some (membership_project m) = project_id P \<and> membership_user m = Some (user_id ow))
          (Membership_objects d) = [m] \<and> by_id (membership_role m) (Role_objects d) = Some r"
    then obtain mm r where "filter (\<lambda>m. Some (membership_project m) = project_id P \<and> membership_user m = Some (user_id ow))
          (Membership_objects d) = [mm]" "by_id (membership_role mm) (Role_objects d) = Some r" by blast
    with owner l show ?thesis by (simp add: load_default_owner_role_def)
  qed
qed

lemma run_append:
  "run (xs @ ys) s = (case run xs s of (None, s') \<Rightarrow> run ys s' | (Some e, s') \<Rightarrow> (Some e, s'))"
  by (induction xs arbitrary: s) (auto split: prod.splits option.splits)

text \<open>
  Claim C1, as amended. Let \<open>P\<close> be a saved project whose taxonomy rows have names unique
  within the project (the tables' \<^verbatim>\<open>unique_together\<close>) and such that, for every taxonomy in
  which \<open>P\<close> has rows, the default pointer of \<open>P\<close> is set and references a record whose name
  is the name of one of the rows of \<open>P\<close>. Let \<open>P2\<close> be a saved project without taxonomy rows,
  and let the slugifier return slugs that are not in use. If
  \<^verbatim>\<open>template.load_data_from_project(P)\<close> returns, then \<^verbatim>\<open>template.apply_to_project(P2)\<close>
  returns as well; afterwards \<open>P2\<close> has, per taxonomy (user story statuses, points, task
  statuses, issue statuses, issue types, priorities, severities, roles), exactly as many rows
  as \<open>P\<close> has, and each default pointer of \<open>P2\<close> whose snapshot list is non-empty resolves to
  a freshly created row of \<open>P2\<close> with the name of the corresponding default record of \<open>P\<close>,
  the other default pointers being left as they were.
\<close>

theorem template_round_trip:
  assumes sl: "fresh_slugs slugify"
    and P: "project_id P = Some p"
    and P2: "project_id P2 = Some q"
    and em: "project_empty q d"
    and un: "names_unique p d"
    and us: "defaults_usable P p d"
    and ld: "load_data_from_project d P T = (None, T')"
  shows "\<exists>P2' d'. apply_to_project slugify T' (P2, d) = (None, (P2', d')) \<and>
           same_counts p q d d' \<and> defaults_after p q P P2 P2' d d'"
proof -
  from load_fields[OF ld] obtain m where
    m: "default_options_dict d P = Inr m" and opts: "default_options T' = Some m"
    and f_us: "us_statuses T' = snapshot P (UserStoryStatus_objects d)"
    and f_po: "points T' = snapshot P (Points_objects d)"
    and f_ts: "task_statuses T' = snapshot P (TaskStatus_objects d)"
    and f_is: "issue_statuses T' = snapshot P (IssueStatus_objects d)"
    and f_it: "issue_types T' = snapshot P (IssueType_objects d)"
    and f_pr: "priorities T' = snapshot P (Priority_objects d)"
    and f_se: "severities T' = snapshot P (Severity_objects d)"
    and f_ro: "roles T' = snapshot_roles P (Role_objects d)"
    by blast
  from default_options_dict_keys[OF m] obtain v_po v_us v_ts v_is v_it v_pr v_se where
    g_po: "getattr_name (default_points P) (Points_objects d) = Inr v_po" and o_po: "m ''points'' = Some v_po"
    and g_us: "getattr_name (default_us_status P) (UserStoryStatus_objects d) = Inr v_us" and o_us: "m ''us_status'' = Some v_us"
    and g_ts: "getattr_name (default_task_status P) (TaskStatus_objects d) = Inr v_ts" and o_ts: "m ''task_status'' = Some v_ts"
    and g_is: "getattr_name (default_issue_status P) (IssueStatus_objects d) = Inr v_is" and o_is: "m ''issue_status'' = Some v_is"
    and g_it: "getattr_name (default_issue_type P) (IssueType_objects d) = Inr v_it" and o_it: "m ''issue_type'' = Some v_it"
    and g_pr: "getattr_name (default_priority P) (Priority_objects d) = Inr v_pr" and o_pr: "m ''priority'' = Some v_pr"
    and g_se: "getattr_name (default_severity P) (Severity_objects d) = Inr v_se" and o_se: "m ''severity'' = Some v_se"
    by blast
  from sl have fr: "\<forall>n sl. slugify n sl \<notin> set sl" by (simp add: fresh_slugs_def)
  note safeS = name_safe_status[OF fr]
  have e_us: "filter_project q (UserStoryStatus_objects d) = []" using em by (simp add: project_empty_def)
  have u_us: "distinct (map (\<lambda>r. name (row_data r)) (filter_project p (UserStoryStatus_objects d)))"
    using un by (simp add: names_unique_def names_of_def)
  have d_us: "default_usable p (default_us_status P) (UserStoryStatus_objects d)" using us by (simp add: defaults_usable_def)
  from taxonomy_round_trip[OF safeS P e_us u_us d_us g_us] obtain t_us where
    c_us: "for_json (objects_create (status_save slugify) unique_name_slug q) (snapshot P (UserStoryStatus_objects d)) (UserStoryStatus_objects d) = (None, t_us)"
    and n_us: "count_rows q t_us = count_rows p (UserStoryStatus_objects d)"
    and r_us: "filter_project p (UserStoryStatus_objects d) \<noteq> [] \<longrightarrow>
      (\<exists>r. objects_get v_us q t_us = Inr r \<and> default_copied q (default_us_status P) (Some (row_id r)) (UserStoryStatus_objects d) t_us)"
    by blast
  have e_po: "filter_project q (Points_objects d) = []" using em by (simp add: project_empty_def)
  have u_po: "distinct (map (\<lambda>r. name (row_data r)) (filter_project p (Points_objects d)))"
    using un by (simp add: names_unique_def names_of_def)
  have d_po: "default_usable p (default_points P) (Points_objects d)" using us by (simp add: defaults_usable_def)
  from taxonomy_round_trip[OF name_safe_plain P e_po u_po d_po g_po] obtain t_po where
    c_po: "for_json (objects_create (plain_save) unique_name q) (snapshot P (Points_objects d)) (Points_objects d) = (None, t_po)"
    and n_po: "count_rows q t_po = count_rows p (Points_objects d)"
    and r_po: "filter_project p (Points_objects d) \<noteq> [] \<longrightarrow>
      (\<exists>r. objects_get v_po q t_po = Inr r \<and> default_copied q (default_points P) (Some (row_id r)) (Points_objects d) t_po)"
    by blast
  have e_ts: "filter_project q (TaskStatus_objects d) = []" using em by (simp add: project_empty_def)
  have u_ts: "distinct (map (\<lambda>r. name (row_data r)) (filter_project p (TaskStatus_objects d)))"
    using un by (simp add: names_unique_def names_of_def)
  have d_ts: "default_usable p (default_task_status P) (TaskStatus_objects d)" using us by (simp add: defaults_usable_def)
  from taxonomy_round_trip[OF safeS P e_ts u_ts d_ts g_ts] obtain t_ts where
    c_ts: "for_json (objects_create (status_save slugify) unique_name_slug q) (snapshot P (TaskStatus_objects d)) (TaskStatus_objects d) = (None, t_ts)"
    and n_ts: "count_rows q t_ts = count_rows p (TaskStatus_objects d)"
    and r_ts: "filter_project p (TaskStatus_objects d) \<noteq> [] \<longrightarrow>
      (\<exists>r. objects_get v_ts q t_ts = Inr r \<and> default_copied q (default_task_status P) (Some (row_id r)) (TaskStatus_objects d) t_ts)"
    by blast
  have e_is: "filter_project q (IssueStatus_objects d) = []" using em by (simp add: project_empty_def)
  have u_is: "distinct (map (\<lambda>r. name (row_data r)) (filter_project p (IssueStatus_objects d)))"
    using un by (simp add: names_unique_def names_of_def)
  have d_is: "default_usable p (default_issue_status P) (IssueStatus_objects d)" using us by (simp add: defaults_usable_def)
  from taxonomy_round_trip[OF safeS P e_is u_is d_is g_is] obtain t_is where
    c_is: "for_json (objects_create (status_save slugify) unique_name_slug q) (snapshot P (IssueStatus_objects d)) (IssueStatus_objects d) = (None, t_is)"
    and n_is: "count_rows q t_is = count_rows p (IssueStatus_objects d)"
    and r_is: "filter_project p (IssueStatus_objects d) \<noteq> [] \<longrightarrow>
      (\<exists>r. objects_get v_is q t_is = Inr r \<and> default_copied q (default_issue_status P) (Some (row_id r)) (IssueStatus_objects d) t_is)"
    by blast
  have e_it: "filter_project q (IssueType_objects d) = []" using em by (simp add: project_empty_def)
  have u_it: "distinct (map (\<lambda>r. name (row_data r)) (filter_project p (IssueType_objects d)))"
    using un by (simp add: names_unique_def names_of_def)
  have d_it: "default_usable p (default_issue_type P) (IssueType_objects d)" using us by (simp add: defaults_usable_def)
  from taxonomy_round_trip[OF name_safe_plain P e_it u_it d_it g_it] obtain t_it where
    c_it: "for_json (objects_create (plain_save) unique_name q) (snapshot P (IssueType_objects d)) (IssueType_objects d) = (None, t_it)"
    and n_it: "count_rows q t_it = count_rows p (IssueType_objects d)"
    and r_it: "filter_project p (IssueType_objects d) \<noteq> [] \<longrightarrow>
      (\<exists>r. objects_get v_it q t_it = Inr r \<and> default_copied q (default_issue_type P) (Some (row_id r)) (IssueType_objects d) t_it)"
    by blast
  have e_pr: "filter_project q (Priority_objects d) = []" using em by (simp add: project_empty_def)
  have u_pr: "distinct (map (\<lambda>r. name (row_data r)) (filter_project p (Priority_objects d)))"
    using un by (simp add: names_unique_def names_of_def)
  have d_pr: "default_usable p (default_priority P) (Priority_objects d)" using us by (simp add: defaults_usable_def)
  from taxonomy_round_trip[OF name_safe_plain P e_pr u_pr d_pr g_pr] obtain t_pr where
    c_pr: "for_json (objects_create (plain_save) unique_name q) (snapshot P (Priority_objects d)) (Priority_objects d) = (None, t_pr)"
    and n_pr: "count_rows q t_pr = count_rows p (Priority_objects d)"
    and r_pr: "filter_project p (Priority_objects d) \<noteq> [] \<longrightarrow>
      (\<exists>r. objects_get v_pr q t_pr = Inr r \<and> default_copied q (default_priority P) (Some (row_id r)) (Priority_objects d) t_pr)"
    by blast
  have e_se: "filter_project q (Severity_objects d) = []" using em by (simp add: project_empty_def)
  have u_se: "distinct (map (\<lambda>r. name (row_data r)) (filter_project p (Severity_objects d)))"
    using un by (simp add: names_unique_def names_of_def)
  have d_se: "default_usable p (default_severity P) (Severity_objects d)" using us by (simp add: defaults_usable_def)
  from taxonomy_round_trip[OF name_safe_plain P e_se u_se d_se g_se] obtain t_se where
    c_se: "for_json (objects_create (plain_save) unique_name q) (snapshot P (Severity_objects d)) (Severity_objects d) = (None, t_se)"
    and n_se: "count_rows q t_se = count_rows p (Severity_objects d)"
    and r_se: "filter_project p (Severity_objects d) \<noteq> [] \<longrightarrow>
      (\<exists>r. objects_get v_se q t_se = Inr r \<and> default_copied q (default_severity P) (Some (row_id r)) (Severity_objects d) t_se)"
    by blast
  have e_ro: "filter_project q (Role_objects d) = []" using em by (simp add: project_empty_def)
  from roles_round_trip[OF P e_ro] obtain t_ro where
    c_ro: "for_json (objects_create plain_save no_constraint q) (snapshot_roles P (Role_objects d)) (Role_objects d) = (None, t_ro)"
    and n_ro: "count_rows q t_ro = count_rows p (Role_objects d)"
    by blast
  define pr0 where "pr0 = P2\<lparr>creation_template := template_id T',
               is_backlog_activated := is_backlog_activated T',
               is_kanban_activated := is_kanban_activated T',
               is_wiki_activated := is_wiki_activated T',
               is_issues_activated := is_issues_activated T',
               videoconferences := videoconferences T',
               videoconferences_extra_data := videoconferences_extra_data T'\<rparr>"
  define d' where "d' = d\<lparr>UserStoryStatus_objects := t_us, Points_objects := t_po,
      TaskStatus_objects := t_ts, IssueStatus_objects := t_is, IssueType_objects := t_it,
      Priority_objects := t_pr, Severity_objects := t_se, Role_objects := t_ro\<rparr>"
  let ?creates = "[
         copy_settings T',
         on_table UserStoryStatus_objects (\<lambda>t. UserStoryStatus_objects_update (\<lambda>_. t))
           (for_json (objects_create (status_save slugify) unique_name_slug q) (us_statuses T')),
         on_table Points_objects (\<lambda>t. Points_objects_update (\<lambda>_. t))
           (for_json (objects_create plain_save unique_name q) (points T')),
         on_table TaskStatus_objects (\<lambda>t. TaskStatus_objects_update (\<lambda>_. t))
           (for_json (objects_create (status_save slugify) unique_name_slug q) (task_statuses T')),
         on_table IssueStatus_objects (\<lambda>t. IssueStatus_objects_update (\<lambda>_. t))
           (for_json (objects_create (status_save slugify) unique_name_slug q) (issue_statuses T')),
         on_table IssueType_objects (\<lambda>t. IssueType_objects_update (\<lambda>_. t))
           (for_json (objects_create plain_save unique_name q) (issue_types T')),
         on_table Priority_objects (\<lambda>t. Priority_objects_update (\<lambda>_. t))
           (for_json (objects_create plain_save unique_name q) (priorities T')),
         on_table Severity_objects (\<lambda>t. Severity_objects_update (\<lambda>_. t))
           (for_json (objects_create plain_save unique_name q) (severities T')),
         on_table Role_objects (\<lambda>t. Role_objects_update (\<lambda>_. t))
           (for_json (objects_create plain_save no_constraint q) (roles T'))]"
  let ?assigns = "[
         assign_default (points T') Points_objects (\<lambda>v. default_points_update (\<lambda>_. v))
           T' ''points'' q,
         assign_default (us_statuses T') UserStoryStatus_objects (\<lambda>v. default_us_status_update (\<lambda>_. v))
           T' ''us_status'' q,
         assign_default (task_statuses T') TaskStatus_objects (\<lambda>v. default_task_status_update (\<lambda>_. v))
           T' ''task_status'' q,
         assign_default (issue_statuses T') IssueStatus_objects (\<lambda>v. default_issue_status_update (\<lambda>_. v))
           T' ''issue_status'' q,
         assign_default (issue_types T') IssueType_objects (\<lambda>v. default_issue_type_update (\<lambda>_. v))
           T' ''issue_type'' q,
         assign_default (priorities T') Priority_objects (\<lambda>v. default_priority_update (\<lambda>_. v))
           T' ''priority'' q,
         assign_default (severities T') Severity_objects (\<lambda>v. default_severity_update (\<lambda>_. v))
           T' ''severity'' q]"
  have creates: "run ?creates (P2, d) = (None, (pr0, d'))"
    by (simp add: copy_settings_def on_table_def pr0_def d'_def
        f_us f_po f_ts f_is f_it f_pr f_se f_ro c_us c_po c_ts c_is c_it c_pr c_se c_ro)
  have tb: "UserStoryStatus_objects d' = t_us" "Points_objects d' = t_po" "TaskStatus_objects d' = t_ts"
    "IssueStatus_objects d' = t_is" "IssueType_objects d' = t_it" "Priority_objects d' = t_pr"
    "Severity_objects d' = t_se" "Role_objects d' = t_ro"
    by (simp_all add: d'_def)
  have same_po: "default_points_update (\<lambda>_. default_points P2) pr0 = pr0"
    by (simp add: pr0_def )
  note step_po = taxonomy_default[where objects = Points_objects and d' = d' and project = pr0
      and setter = "\<lambda>v. default_points_update (\<lambda>_. v)" and old = "default_points P2" and T' = T'
      and key = "''points''" and v = v_po and tbl = "Points_objects d" and tbl' = t_po and P = P and p = p
      and q = q and ptr = "default_points P"]
  from step_po r_po P default_option_key[OF opts o_po] same_po tb(2) obtain k_po where
    a_po: "assign_default (snapshot P (Points_objects d)) Points_objects (\<lambda>v. default_points_update (\<lambda>_. v)) T' ''points'' q (pr0, d') =
            (None, (default_points_update (\<lambda>_. k_po) pr0, d'))"
    and z_po: "default_after p q (default_points P) (default_points P2) k_po (Points_objects d) t_po"
    by blast
  define pr1 where "pr1 = default_points_update (\<lambda>_. k_po) pr0"
  have same_us: "default_us_status_update (\<lambda>_. default_us_status P2) pr1 = pr1"
    by (simp add: pr0_def pr1_def)
  note step_us = taxonomy_default[where objects = UserStoryStatus_objects and d' = d' and project = pr1
      and setter = "\<lambda>v. default_us_status_update (\<lambda>_. v)" and old = "default_us_status P2" and T' = T'
      and key = "''us_status''" and v = v_us and tbl = "UserStoryStatus_objects d" and tbl' = t_us and P = P and p = p
      and q = q and ptr = "default_us_status P"]
  from step_us r_us P default_option_key[OF opts o_us] same_us tb(1) obtain k_us where
    a_us: "assign_default (snapshot P (UserStoryStatus_objects d)) UserStoryStatus_objects (\<lambda>v. default_us_status_update (\<lambda>_. v)) T' ''us_status'' q (pr1, d') =
            (None, (default_us_status_update (\<lambda>_. k_us) pr1, d'))"
    and z_us: "default_after p q (default_us_status P) (default_us_status P2) k_us (UserStoryStatus_objects d) t_us"
    by blast
  define pr2 where "pr2 = default_us_status_update (\<lambda>_. k_us) pr1"
  have same_ts: "default_task_status_update (\<lambda>_. default_task_status P2) pr2 = pr2"
    by (simp add: pr0_def pr1_def pr2_def)
  note step_ts = taxonomy_default[where objects = TaskStatus_objects and d' = d' and project = pr2
      and setter = "\<lambda>v. default_task_status_update (\<lambda>_. v)" and old = "default_task_status P2" and T' = T'
      and key = "''task_status''" and v = v_ts and tbl = "TaskStatus_objects d" and tbl' = t_ts and P = P and p = p
      and q = q and ptr = "default_task_status P"]
  from step_ts r_ts P default_option_key[OF opts o_ts] same_ts tb(3) obtain k_ts where
    a_ts: "assign_default (snapshot P (TaskStatus_objects d)) TaskStatus_objects (\<lambda>v. default_task_status_update (\<lambda>_. v)) T' ''task_status'' q (pr2, d') =
            (None, (default_task_status_update (\<lambda>_. k_ts) pr2, d'))"
    and z_ts: "default_after p q (default_task_status P) (default_task_status P2) k_ts (TaskStatus_objects d) t_ts"
    by blast
  define pr3 where "pr3 = default_task_status_update (\<lambda>_. k_ts) pr2"
  have same_is: "default_issue_status_update (\<lambda>_. default_issue_status P2) pr3 = pr3"
    by (simp add: pr0_def pr1_def pr2_def pr3_def)
  note step_is = taxonomy_default[where objects = IssueStatus_objects and d' = d' and project = pr3
      and setter = "\<lambda>v. default_issue_status_update (\<lambda>_. v)" and old = "default_issue_status P2" and T' = T'
      and key = "''issue_status''" and v = v_is and tbl = "IssueStatus_objects d" and tbl' = t_is and P = P and p = p
      and q = q and ptr = "default_issue_status P"]
  from step_is r_is P default_option_key[OF opts o_is] same_is tb(4) obtain k_is where
    a_is: "assign_default (snapshot P (IssueStatus_objects d)) IssueStatus_objects (\<lambda>v. default_issue_status_update (\<lambda>_. v)) T' ''issue_status'' q (pr3, d') =
            (None, (default_issue_status_update (\<lambda>_. k_is) pr3, d'))"
    and z_is: "default_after p q (default_issue_status P) (default_issue_status P2) k_is (IssueStatus_objects d) t_is"
    by blast
  define pr4 where "pr4 = default_issue_status_update (\<lambda>_. k_is) pr3"
  have same_it: "default_issue_type_update (\<lambda>_. default_issue_type P2) pr4 = pr4"
    by (simp add: pr0_def pr1_def pr2_def pr3_def pr4_def)
  note step_it = taxonomy_default[where objects = IssueType_objects and d' = d' and project = pr4
      and setter = "\<lambda>v. default_issue_type_update (\<lambda>_. v)" and old = "default_issue_type P2" and T' = T'
      and key = "''issue_type''" and v = v_it and tbl = "IssueType_objects d" and tbl' = t_it and P = P and p = p
      and q = q and ptr = "default_issue_type P"]
  from step_it r_it P default_option_key[OF opts o_it] same_it tb(5) obtain k_it where
    a_it: "assign_default (snapshot P (IssueType_objects d)) IssueType_objects (\<lambda>v. default_issue_type_update (\<lambda>_. v)) T' ''issue_type'' q (pr4, d') =
            (None, (default_issue_type_update (\<lambda>_. k_it) pr4, d'))"
    and z_it: "default_after p q (default_issue_type P) (default_issue_type P2) k_it (IssueType_objects d) t_it"
    by blast
  define pr5 where "pr5 = default_issue_type_update (\<lambda>_. k_it) pr4"
  have same_pr: "default_priority_update (\<lambda>_. default_priority P2) pr5 = pr5"
    by (simp add: pr0_def pr1_def pr2_def pr3_def pr4_def pr5_def)
  note step_pr = taxonomy_default[where objects = Priority_objects and d' = d' and project = pr5
      and setter = "\<lambda>v. default_priority_update (\<lambda>_. v)" and old = "default_priority P2" and T' = T'
      and key = "''priority''" and v = v_pr and tbl = "Priority_objects d" and tbl' = t_pr and P = P and p = p
      and q = q and ptr = "default_priority P"]
  from step_pr r_pr P default_option_key[OF opts o_pr] same_pr tb(6) obtain k_pr where
    a_pr: "assign_default (snapshot P (Priority_objects d)) Priority_objects (\<lambda>v. default_priority_update (\<lambda>_. v)) T' ''priority'' q (pr5, d') =
            (None, (default_priority_update (\<lambda>_. k_pr) pr5, d'))"
    and z_pr: "default_after p q (default_priority P) (default_priority P2) k_pr (Priority_objects d) t_pr"
    by blast
  define pr6 where "pr6 = default_priority_update (\<lambda>_. k_pr) pr5"
  have same_se: "default_severity_update (\<lambda>_. default_severity P2) pr6 = pr6"
    by (simp add: pr0_def pr1_def pr2_def pr3_def pr4_def pr5_def pr6_def)
  note step_se = taxonomy_default[where objects = Severity_objects and d' = d' and project = pr6
      and setter = "\<lambda>v. default_severity_update (\<lambda>_. v)" and old = "default_severity P2" and T' = T'
      and key = "''severity''" and v = v_se and tbl = "Severity_objects d" and tbl' = t_se and P = P and p = p
      and q = q and ptr = "default_severity P"]
  from step_se r_se P default_option_key[OF opts o_se] same_se tb(7) obtain k_se where
    a_se: "assign_default (snapshot P (Severity_objects d)) Severity_objects (\<lambda>v. default_severity_update (\<lambda>_. v)) T' ''severity'' q (pr6, d') =
            (None, (default_severity_update (\<lambda>_. k_se) pr6, d'))"
    and z_se: "default_after p q (default_severity P) (default_severity P2) k_se (Severity_objects d) t_se"
    by blast
  define pr7 where "pr7 = default_severity_update (\<lambda>_. k_se) pr6"
  have assigns: "run ?assigns (pr0, d') = (None, (pr7, d'))"
    by (simp add: f_us f_po f_ts f_is f_it f_pr f_se
        a_po a_us a_ts a_is a_it a_pr a_se
        pr1_def[symmetric] pr2_def[symmetric] pr3_def[symmetric] pr4_def[symmetric]
        pr5_def[symmetric] pr6_def[symmetric] pr7_def[symmetric])
  have "apply_to_project slugify T' (P2, d) = run (?creates @ ?assigns) (P2, d)"
    using P2 by (simp add: apply_to_project_def)
  also have "\<dots> = (None, (pr7, d'))"
    unfolding run_append using creates assigns by simp
  finally have res: "apply_to_project slugify T' (P2, d) = (None, (pr7, d'))" .
  have counts: "same_counts p q d d'"
    unfolding same_counts_def tb using n_us n_po n_ts n_is n_it n_pr n_se n_ro by simp
  have ptrs: "default_points pr7 = k_po" "default_us_status pr7 = k_us" "default_task_status pr7 = k_ts"
    "default_issue_status pr7 = k_is" "default_issue_type pr7 = k_it" "default_priority pr7 = k_pr"
    "default_severity pr7 = k_se"
    by (simp_all add: pr1_def pr2_def pr3_def pr4_def pr5_def pr6_def pr7_def)
  have "defaults_after p q P P2 pr7 d d'"
    unfolding defaults_after_def tb ptrs using z_us z_po z_ts z_is z_it z_pr z_se by simp
  with res counts show ?thesis by blast
qed

lemma demo_slugify_fresh: "fresh_slugs demo_slugify"
  unfolding fresh_slugs_def
proof (intro allI notI)
  fix n sl
  assume "demo_slugify n sl \<in> set sl"
  then have "length (demo_slugify n sl) \<in> set (map length sl)" by simp
  then have "length (demo_slugify n sl) \<le> fold max (map length sl) 0" by (rule fold_max_mem)
  then show False by (simp add: demo_slugify_def)
qed

theorem template_round_trip_witness:
  "fresh_slugs demo_slugify \<and> project_id demo_project = Some 1 \<and>
   project_id demo_target = Some 2 \<and> project_empty 2 demo_db \<and> names_unique 1 demo_db \<and>
   defaults_usable demo_project 1 demo_db \<and>
   fst (load_data_from_project demo_db demo_project demo_template) = None \<and>
   (\<exists>P2' d'.
      apply_to_project demo_slugify
        (snd (load_data_from_project demo_db demo_project demo_template)) (demo_target, demo_db) =
        (None, (P2', d')) \<and>
      same_counts 1 2 demo_db d' \<and> defaults_after 1 2 demo_project demo_target P2' demo_db d')"
proof -
  have h2: "project_id demo_project = Some 1" by (simp add: demo_project_def)
  have h3: "project_id demo_target = Some 2" by (simp add: demo_target_def)
  have h4: "project_empty 2 demo_db" by code_simp
  have h5: "names_unique 1 demo_db" by code_simp
  have h6: "defaults_usable demo_project 1 demo_db" by code_simp
  have h7: "fst (load_data_from_project demo_db demo_project demo_template) = None" by code_simp
  then have ld: "load_data_from_project demo_db demo_project demo_template =
      (None, snd (load_data_from_project demo_db demo_project demo_template))"
    by (simp add: prod_eq_iff)
  from template_round_trip[OF demo_slugify_fresh h2 h3 h4 h5 h6 ld] demo_slugify_fresh h2 h3 h4 h5 h6 h7
  show ?thesis by blast
qed

text \<open>
  The claim as it was stated fails: when project 1 has a points row but its
  \<^verbatim>\<open>default_points\<close> is null (the field is nullable and set to null when the referenced row
  is deleted), loading the template succeeds and stores \<open>None\<close> under \<^verbatim>\<open>"points"\<close>, and
  \<^verbatim>\<open>apply_to_project\<close> then runs \<^verbatim>\<open>Points.objects.get(name=None, project=project)\<close>, which
  raises \<^verbatim>\<open>DoesNotExist\<close>.
\<close>

theorem template_round_trip_counterexample:
  "fst (load_data_from_project demo_db (demo_project\<lparr>default_points := None\<rparr>) demo_template) = None \<and>
   count_rows 1 (Points_objects demo_db) = 1 \<and>
   fst (apply_to_project demo_slugify
         (snd (load_data_from_project demo_db (demo_project\<lparr>default_points := None\<rparr>) demo_template))
         (demo_target, demo_db)) = Some DoesNotExist"
  by code_simp

subsection \<open>At most one membership per user and project\<close>

lemma memberships_filter_set:
  "set (memberships_filter u p objects) =
   {m \<in> set objects. membership_user m = u \<and> membership_project m = p}"
  by (simp add: memberships_filter_def)

text \<open>
  Claim C3. Let a non-invitation membership row link user \<open>u\<close> and project \<open>p\<close>. Validating a
  second membership of \<open>u\<close> in \<open>p\<close>, that is, one whose id is not the id of a row that already
  links them (an unsaved one in particular), raises the validation error. Validating an
  invitation (no user) never raises, whatever rows exist.
\<close>

theorem clean_rejects_second_membership:
  "(m0 \<in> set objects \<and> membership_user m0 = Some u \<and> membership_project m0 = p \<and>
    membership_user self = Some u \<and> membership_project self = p \<and>
    (\<forall>m \<in> set objects. membership_user m = Some u \<and> membership_project m = p \<longrightarrow>
        membership_id m \<noteq> membership_id self)
    \<longrightarrow> clean objects self = Some (ValidationError ''The user is already member of the project''))
   \<and> (membership_user invitation = None \<longrightarrow> clean objects invitation = None)"
proof (intro conjI impI)
  assume a: "m0 \<in> set objects \<and> membership_user m0 = Some u \<and> membership_project m0 = p \<and>
    membership_user self = Some u \<and> membership_project self = p \<and>
    (\<forall>m \<in> set objects. membership_user m = Some u \<and> membership_project m = p \<longrightarrow>
        membership_id m \<noteq> membership_id self)"
  let ?ms = "memberships_filter (Some u) p objects"
  from a have "m0 \<in> set ?ms" by (simp add: memberships_filter_set)
  then have ne: "?ms \<noteq> []" by auto
  then have "hd ?ms \<in> set ?ms" by simp
  then have "hd ?ms \<in> set objects" "membership_user (hd ?ms) = Some u"
    "membership_project (hd ?ms) = p"
    by (simp_all add: memberships_filter_set)
  with a have "membership_id (hd ?ms) \<noteq> membership_id self" by blast
  with a ne show "clean objects self = Some (ValidationError ''The user is already member of the project'')"
    by (simp add: clean_def)
next
  assume "membership_user invitation = None"
  then show "clean objects invitation = None" by (simp add: clean_def)
qed

theorem clean_rejects_second_membership_witness:
  "clean (Membership_objects demo_db) demo_second_membership =
     Some (ValidationError ''The user is already member of the project'') \<and>
   clean (Membership_objects demo_db) demo_invitation = None"
proof -
  let ?m0 = "\<lparr>membership_id = Some 1, membership_user = Some 1, membership_project = 1,
         membership_role = 1, membership_email = None\<rparr>"
  have "?m0 \<in> set (Membership_objects demo_db) \<and> membership_user ?m0 = Some 1 \<and>
    membership_project ?m0 = 1 \<and>
    membership_user demo_second_membership = Some 1 \<and>
    membership_project demo_second_membership = 1 \<and>
    (\<forall>m \<in> set (Membership_objects demo_db). membership_user m = Some 1 \<and> membership_project m = 1 \<longrightarrow>
        membership_id m \<noteq> membership_id demo_second_membership)"
    by (simp add: demo_db_def demo_second_membership_def)
  moreover have "membership_user demo_invitation = None" by (simp add: demo_invitation_def)
  ultimately show ?thesis
    using clean_rejects_second_membership[of ?m0 "Membership_objects demo_db" 1 1
        demo_second_membership demo_invitation]
    by blast
qed

subsection \<open>Vote annotations\<close>

lemma fetch_attr:
  assumes "row \<in> set (fetch tables db qs)"
  shows "attributes row k = map_option (\<lambda>sql. sql db (pk row)) (qs_extra qs k)"
  using assms by (auto simp: fetch_def)

lemma fetch_pks:
  assumes "qs_model qs' = qs_model qs" and "qs_where qs' = qs_where qs"
  shows "map pk (fetch tables db qs') = map pk (fetch tables db qs)"
  using assms by (simp add: fetch_def comp_def)

lemma coalesce_sql_sum: "coalesce (sql_sum xs) 0 = sum_list xs"
  by (simp add: coalesce_def sql_sum_def)

text \<open>
  Claim C5. For a queryset over one model, every row fetched from
  \<^verbatim>\<open>attach_votes_count_to_queryset(queryset)\<close> carries as \<^verbatim>\<open>votes_count\<close> the sum of the stored
  counters of its (content type, id), which is 0 when it has no counter row; every row fetched
  from \<^verbatim>\<open>attach_is_vote_to_queryset(user, queryset)\<close> carries \<^verbatim>\<open>is_voted\<close>, true exactly when a
  vote row of that user for that (content type, id) exists. Both functions only add one select
  column to the query: they run nothing, the rows selected stay the same, and the annotation
  of all rows comes with the one query that fetches them.
\<close>

theorem attach_votes_annotations:
  "(\<forall>row \<in> set (fetch tables db (attach_votes_count_to_queryset get_for_model queryset ''votes_count'')).
      attributes row ''votes_count'' =
        Some (PyInt (sum_list (map (\<lambda>v. coalesce (votes_count v) 0)
                (counters_of (get_for_model (qs_model queryset)) (pk row) db)))) \<and>
      (counters_of (get_for_model (qs_model queryset)) (pk row) db = [] \<longrightarrow>
         attributes row ''votes_count'' = Some (PyInt 0)))
   \<and> (\<forall>row \<in> set (fetch tables db (attach_is_vote_to_queryset get_for_model user queryset ''is_voted'')).
      attributes row ''is_voted'' =
        Some (PyBool (\<exists>v \<in> set (votes_vote db).
                vote_content_type_id v = get_for_model (qs_model queryset) \<and>
                vote_object_id v = pk row \<and> vote_user_id v = user)))
   \<and> attach_votes_count_to_queryset get_for_model queryset ''votes_count'' =
        queryset\<lparr>qs_extra := (qs_extra queryset)(''votes_count'' \<mapsto>
                    votes_count_sql (get_for_model (qs_model queryset)))\<rparr>
   \<and> attach_is_vote_to_queryset get_for_model user queryset ''is_voted'' =
        queryset\<lparr>qs_extra := (qs_extra queryset)(''is_voted'' \<mapsto>
                    is_voted_sql (get_for_model (qs_model queryset)) user)\<rparr>
   \<and> map pk (fetch tables db (attach_votes_count_to_queryset get_for_model queryset ''votes_count'')) =
        map pk (fetch tables db queryset)
   \<and> map pk (fetch tables db (attach_is_vote_to_queryset get_for_model user queryset ''is_voted'')) =
        map pk (fetch tables db queryset)"
proof (intro conjI ballI)
  fix row
  assume r: "row \<in> set (fetch tables db (attach_votes_count_to_queryset get_for_model queryset ''votes_count''))"
  from fetch_attr[OF r, of "''votes_count''"]
  show c: "attributes row ''votes_count'' =
        Some (PyInt (sum_list (map (\<lambda>v. coalesce (votes_count v) 0)
                (counters_of (get_for_model (qs_model queryset)) (pk row) db))))"
    by (simp add: attach_votes_count_to_queryset_def extra_select_def votes_count_sql_def
        coalesce_sql_sum)
  show "counters_of (get_for_model (qs_model queryset)) (pk row) db = [] \<longrightarrow>
         attributes row ''votes_count'' = Some (PyInt 0)"
    using c by simp
next
  fix row
  assume r: "row \<in> set (fetch tables db (attach_is_vote_to_queryset get_for_model user queryset ''is_voted''))"
  have "(0 < length (filter (\<lambda>v. vote_content_type_id v = get_for_model (qs_model queryset) \<and>
            vote_object_id v = pk row \<and> vote_user_id v = user) (votes_vote db))) =
        (\<exists>v \<in> set (votes_vote db).
                vote_content_type_id v = get_for_model (qs_model queryset) \<and>
                vote_object_id v = pk row \<and> vote_user_id v = user)"
    by (auto simp: filter_empty_conv)
  with fetch_attr[OF r, of "''is_voted''"]
  show "attributes row ''is_voted'' =
        Some (PyBool (\<exists>v \<in> set (votes_vote db).
                vote_content_type_id v = get_for_model (qs_model queryset) \<and>
                vote_object_id v = pk row \<and> vote_user_id v = user))"
    by (simp add: attach_is_vote_to_queryset_def extra_select_def is_voted_sql_def)
next
  show "attach_votes_count_to_queryset get_for_model queryset ''votes_count'' =
        queryset\<lparr>qs_extra := (qs_extra queryset)(''votes_count'' \<mapsto>
                    votes_count_sql (get_for_model (qs_model queryset)))\<rparr>"
    by (simp add: attach_votes_count_to_queryset_def extra_select_def)
next
  show "attach_is_vote_to_queryset get_for_model user queryset ''is_voted'' =
        queryset\<lparr>qs_extra := (qs_extra queryset)(''is_voted'' \<mapsto>
                    is_voted_sql (get_for_model (qs_model queryset)) user)\<rparr>"
    by (simp add: attach_is_vote_to_queryset_def extra_select_def)
next
  show "map pk (fetch tables db (attach_votes_count_to_queryset get_for_model queryset ''votes_count'')) =
        map pk (fetch tables db queryset)"
    by (rule fetch_pks) (simp_all add: attach_votes_count_to_queryset_def extra_select_def)
next
  show "map pk (fetch tables db (attach_is_vote_to_queryset get_for_model user queryset ''is_voted'')) =
        map pk (fetch tables db queryset)"
    by (rule fetch_pks) (simp_all add: attach_is_vote_to_queryset_def extra_select_def)
qed

theorem attach_votes_annotations_witness:
  "map (\<lambda>row. attributes row ''votes_count'')
     (fetch demo_tables demo_vote_db
        (attach_votes_count_to_queryset demo_get_for_model demo_queryset ''votes_count'')) =
     [Some (PyInt 2), Some (PyInt 0)] \<and>
   map (\<lambda>row. attributes row ''is_voted'')
     (fetch demo_tables demo_vote_db
        (attach_is_vote_to_queryset demo_get_for_model 1 demo_queryset ''is_voted'')) =
     [Some (PyBool True), Some (PyBool False)] \<and>
   map pk (fetch demo_tables demo_vote_db
        (attach_votes_count_to_queryset demo_get_for_model demo_queryset ''votes_count'')) = [1, 2]"
proof -
  note t = attach_votes_annotations[of demo_tables demo_vote_db demo_get_for_model demo_queryset 1]
  have rows: "map pk (fetch demo_tables demo_vote_db demo_queryset) = [1, 2]"
    by (simp add: fetch_def demo_queryset_def demo_tables_def)
  have q1: "attach_votes_count_to_queryset demo_get_for_model demo_queryset ''votes_count'' =
        demo_queryset\<lparr>qs_extra := (qs_extra demo_queryset)(''votes_count'' \<mapsto>
                    votes_count_sql (demo_get_for_model (qs_model demo_queryset)))\<rparr>"
    using t by blast
  have q2: "attach_is_vote_to_queryset demo_get_for_model 1 demo_queryset ''is_voted'' =
        demo_queryset\<lparr>qs_extra := (qs_extra demo_queryset)(''is_voted'' \<mapsto>
                    is_voted_sql (demo_get_for_model (qs_model demo_queryset)) 1)\<rparr>"
    using t by blast
  have "map pk (fetch demo_tables demo_vote_db
        (attach_votes_count_to_queryset demo_get_for_model demo_queryset ''votes_count'')) =
        map pk (fetch demo_tables demo_vote_db demo_queryset)"
    using t by blast
  with rows have p: "map pk (fetch demo_tables demo_vote_db
        (attach_votes_count_to_queryset demo_get_for_model demo_queryset ''votes_count'')) = [1, 2]"
    by simp
  show ?thesis
    unfolding q1 q2 using p[unfolded q1]
    by (simp add: fetch_def demo_queryset_def demo_tables_def demo_get_for_model_def
        demo_vote_db_def votes_count_sql_def is_voted_sql_def counters_of_def
        coalesce_def sql_sum_def)
qed

subsection \<open>Anonymous viewers\<close>

text \<open>
  Claim C6. For a request whose user is not authenticated, attaching the vote attributes adds
  the vote count only: the query has an \<^verbatim>\<open>is_voted\<close> column exactly if it had one before, and
  attaching the watch attributes is \<^verbatim>\<open>attach_watchers_to_queryset\<close> alone, the user-scoped
  \<^verbatim>\<open>attach_is_watched_to_queryset\<close> not being applied. The serialized \<^verbatim>\<open>is_voted\<close> and
  \<^verbatim>\<open>is_watched\<close> of an object without the attribute are \<^verbatim>\<open>False\<close>; so is \<^verbatim>\<open>is_voted\<close> for
  every row an anonymous request fetches from a query that had no such column.
\<close>

theorem anonymous_gets_no_user_annotations:
  "(\<not> is_authenticated request_user \<longrightarrow>
      attach_votes_attrs_to_queryset get_for_model request_user queryset =
        attach_votes_count_to_queryset get_for_model queryset ''votes_count'' \<and>
      qs_extra (attach_votes_attrs_to_queryset get_for_model request_user queryset) ''is_voted'' =
        qs_extra queryset ''is_voted'' \<and>
      attach_watchers_attrs_to_queryset attach_watchers_to_queryset attach_is_watched_to_queryset
        request_user queryset = attach_watchers_to_queryset queryset)
   \<and> (attributes obj ''is_voted'' = None \<longrightarrow> get_is_voted obj = PyBool False)
   \<and> (attributes obj ''is_watched'' = None \<longrightarrow> get_is_watched obj = PyBool False)
   \<and> (\<not> is_authenticated request_user \<and> qs_extra queryset ''is_voted'' = None \<longrightarrow>
        (\<forall>row \<in> set (fetch tables db (attach_votes_attrs_to_queryset get_for_model request_user queryset)).
           get_is_voted row = PyBool False))"
proof (intro conjI impI ballI)
  assume a: "\<not> is_authenticated request_user"
  then have u: "request_user = AnonymousUser"
    by (cases request_user) (simp_all add: is_authenticated_def)
  show "attach_votes_attrs_to_queryset get_for_model request_user queryset =
        attach_votes_count_to_queryset get_for_model queryset ''votes_count''"
    using u by (simp add: attach_votes_attrs_to_queryset_def)
  show "qs_extra (attach_votes_attrs_to_queryset get_for_model request_user queryset) ''is_voted'' =
        qs_extra queryset ''is_voted''"
    using u
    by (simp add: attach_votes_attrs_to_queryset_def attach_votes_count_to_queryset_def
        extra_select_def)
  show "attach_watchers_attrs_to_queryset attach_watchers_to_queryset attach_is_watched_to_queryset
        request_user queryset = attach_watchers_to_queryset queryset"
    using u by (simp add: attach_watchers_attrs_to_queryset_def)
next
  assume "attributes obj ''is_voted'' = None"
  then show "get_is_voted obj = PyBool False" by (simp add: get_is_voted_def getattr_or_def)
next
  assume "attributes obj ''is_watched'' = None"
  then show "get_is_watched obj = PyBool False" by (simp add: get_is_watched_def getattr_or_def)
next
  fix row
  assume a: "\<not> is_authenticated request_user \<and> qs_extra queryset ''is_voted'' = None"
    and r: "row \<in> set (fetch tables db (attach_votes_attrs_to_queryset get_for_model request_user queryset))"
  from a have u: "request_user = AnonymousUser"
    by (cases request_user) (simp_all add: is_authenticated_def)
  have "qs_extra (attach_votes_attrs_to_queryset get_for_model request_user queryset) ''is_voted'' = None"
    using u a
    by (simp add: attach_votes_attrs_to_queryset_def attach_votes_count_to_queryset_def
        extra_select_def)
  with fetch_attr[OF r, of "''is_voted''"] have "attributes row ''is_voted'' = None" by simp
  then show "get_is_voted row = PyBool False" by (simp add: get_is_voted_def getattr_or_def)
qed

theorem anonymous_gets_no_user_annotations_witness:
  "\<not> is_authenticated AnonymousUser \<and>
   attach_votes_attrs_to_queryset demo_get_for_model AnonymousUser demo_queryset =
     attach_votes_count_to_queryset demo_get_for_model demo_queryset ''votes_count'' \<and>
   qs_extra (attach_votes_attrs_to_queryset demo_get_for_model AnonymousUser demo_queryset) ''is_voted'' = None \<and>
   attach_watchers_attrs_to_queryset (\<lambda>qs. qs) (\<lambda>qs user. extra_select ''is_watched'' (is_voted_sql 0 user) qs)
     AnonymousUser demo_queryset = demo_queryset \<and>
   get_is_voted \<lparr>pk = 1, attributes = Map.empty\<rparr> = PyBool False \<and>
   get_is_watched \<lparr>pk = 1, attributes = Map.empty\<rparr> = PyBool False \<and>
   map get_is_voted (fetch demo_tables demo_vote_db
     (attach_votes_attrs_to_queryset demo_get_for_model AnonymousUser demo_queryset)) =
     [PyBool False, PyBool False]"
proof -
  note t = anonymous_gets_no_user_annotations[of AnonymousUser demo_get_for_model demo_queryset
      "\<lambda>qs. qs" "\<lambda>qs user. extra_select ''is_watched'' (is_voted_sql 0 user) qs"
      "\<lparr>pk = 1, attributes = Map.empty\<rparr>" demo_tables demo_vote_db]
  have a: "\<not> is_authenticated AnonymousUser" by (simp add: is_authenticated_def)
  have e: "qs_extra demo_queryset ''is_voted'' = None" by (simp add: demo_queryset_def)
  have o: "attributes \<lparr>pk = 1, attributes = Map.empty\<rparr> ''is_voted'' = None"
    "attributes \<lparr>pk = 1, attributes = Map.empty\<rparr> ''is_watched'' = None" by simp_all
  from t a e have all: "\<forall>row \<in> set (fetch demo_tables demo_vote_db
      (attach_votes_attrs_to_queryset demo_get_for_model AnonymousUser demo_queryset)).
      get_is_voted row = PyBool False" by blast
  have len: "length (fetch demo_tables demo_vote_db
      (attach_votes_attrs_to_queryset demo_get_for_model AnonymousUser demo_queryset)) = 2"
    by (simp add: fetch_def attach_votes_attrs_to_queryset_def attach_votes_count_to_queryset_def
        extra_select_def demo_queryset_def demo_tables_def)
  have m: "map get_is_voted (fetch demo_tables demo_vote_db
     (attach_votes_attrs_to_queryset demo_get_for_model AnonymousUser demo_queryset)) =
     [PyBool False, PyBool False]"
  proof -
    let ?xs = "fetch demo_tables demo_vote_db
      (attach_votes_attrs_to_queryset demo_get_for_model AnonymousUser demo_queryset)"
    from all have "map get_is_voted ?xs = replicate (length ?xs) (PyBool False)"
      by (simp add: map_replicate_const[symmetric] cong: map_cong)
    with len show ?thesis by (simp add: numeral_2_eq_2)
  qed
  from t a have c1: "attach_votes_attrs_to_queryset demo_get_for_model AnonymousUser demo_queryset =
     attach_votes_count_to_queryset demo_get_for_model demo_queryset ''votes_count''" by blast
  from t a have "qs_extra (attach_votes_attrs_to_queryset demo_get_for_model AnonymousUser demo_queryset) ''is_voted'' =
     qs_extra demo_queryset ''is_voted''" by blast
  from this e have c2: "qs_extra (attach_votes_attrs_to_queryset demo_get_for_model AnonymousUser demo_queryset) ''is_voted'' = None"
    by (rule trans)
  from t a have c3: "attach_watchers_attrs_to_queryset (\<lambda>qs. qs)
     (\<lambda>qs user. extra_select ''is_watched'' (is_voted_sql 0 user) qs)
     AnonymousUser demo_queryset = demo_queryset" by blast
  from t o have c4: "get_is_voted \<lparr>pk = 1, attributes = Map.empty\<rparr> = PyBool False" by blast
  from t o have c5: "get_is_watched \<lparr>pk = 1, attributes = Map.empty\<rparr> = PyBool False" by blast
  from a c1 c2 c3 c4 c5 m show ?thesis by (intro conjI)
qed

subsection \<open>Mentions are analysed before the fan-out\<close>

text \<open>
  Claim C7. When there is a history entry (given, or else the last one) and notifications are
  not suppressed, \<^verbatim>\<open>send_notifications\<close> runs the fan-out service on the state that the
  mention analysis of the entry's comment leaves: the analysis comes first. Hence, for any
  services such that the analysis makes every user mentioned in the comment a watcher of the
  object and the fan-out notifies every user who is a watcher when it runs, every user
  mentioned in the change is notified of that very change.
\<close>

theorem send_notifications_analyses_first:
  "(history = Some h \<or> history = None \<and> get_last_history w = Some h) \<and> \<not> not_notify \<longrightarrow>
     send_notifications services get_last_history get_object_for_snapshot not_notify obj history w =
       services_send_notifications services (get_object_for_snapshot obj) h
         (analize_object_for_watchers services (get_object_for_snapshot obj)
            (history_comment h) (history_owner h) w) \<and>
     ((\<forall>ob c ow s u. u \<in> mentions c \<longrightarrow>
          u \<in> set (get_watchers services ob (analize_object_for_watchers services ob c ow s))) \<and>
      (\<forall>ob e s u. u \<in> set (get_watchers services ob s) \<longrightarrow>
          notified u e (services_send_notifications services ob e s)) \<longrightarrow>
      (\<forall>u \<in> mentions (history_comment h).
          notified u h
            (send_notifications services get_last_history get_object_for_snapshot not_notify
               obj history w)))"
proof (intro impI)
  assume a: "(history = Some h \<or> history = None \<and> get_last_history w = Some h) \<and> \<not> not_notify"
  let ?obj = "get_object_for_snapshot obj"
  let ?w1 = "analize_object_for_watchers services ?obj (history_comment h) (history_owner h) w"
  have eq: "send_notifications services get_last_history get_object_for_snapshot not_notify obj history w =
       services_send_notifications services ?obj h ?w1"
    using a by (auto simp: send_notifications_def Let_def)
  have "\<forall>u \<in> mentions (history_comment h).
          notified u h
            (send_notifications services get_last_history get_object_for_snapshot not_notify
               obj history w)"
    if A: "\<forall>ob c ow s u. u \<in> mentions c \<longrightarrow>
          u \<in> set (get_watchers services ob (analize_object_for_watchers services ob c ow s))"
      and B: "\<forall>ob e s u. u \<in> set (get_watchers services ob s) \<longrightarrow>
          notified u e (services_send_notifications services ob e s)"
  proof
    fix u
    assume "u \<in> mentions (history_comment h)"
    with A have "u \<in> set (get_watchers services ?obj ?w1)" by blast
    with B have "notified u h (services_send_notifications services ?obj h ?w1)" by blast
    with eq show "notified u h
            (send_notifications services get_last_history get_object_for_snapshot not_notify
               obj history w)" by simp
  qed
  with eq show "send_notifications services get_last_history get_object_for_snapshot not_notify obj history w =
       services_send_notifications services (get_object_for_snapshot obj) h
         (analize_object_for_watchers services (get_object_for_snapshot obj)
            (history_comment h) (history_owner h) w) \<and>
     ((\<forall>ob c ow s u. u \<in> mentions c \<longrightarrow>
          u \<in> set (get_watchers services ob (analize_object_for_watchers services ob c ow s))) \<and>
      (\<forall>ob e s u. u \<in> set (get_watchers services ob s) \<longrightarrow>
          notified u e (services_send_notifications services ob e s)) \<longrightarrow>
      (\<forall>u \<in> mentions (history_comment h).
          notified u h
            (send_notifications services get_last_history get_object_for_snapshot not_notify
               obj history w)))"
    by blast
qed

lemma demo_analysis_adds_mentions:
  "\<forall>ob c ow s u. u \<in> demo_mentions c \<longrightarrow>
     u \<in> set (get_watchers demo_services ob (analize_object_for_watchers demo_services ob c ow s))"
proof (intro allI impI)
  fix ob :: unit and c ow and s :: "nat list \<times> demo_event list" and u
  assume "u \<in> demo_mentions c"
  then have "u \<in> set (filter (\<lambda>u. ''0123456789'' ! u \<in> set c) [0..<10])"
    by (simp add: demo_mentions_def)
  then show "u \<in> set (get_watchers demo_services ob (analize_object_for_watchers demo_services ob c ow s))"
    by (cases s) (simp add: demo_services_def)
qed

lemma demo_fan_out_reaches_watchers:
  "\<forall>ob e s u. u \<in> set (get_watchers demo_services ob s) \<longrightarrow>
     demo_notified u e (services_send_notifications demo_services ob e s)"
proof (intro allI impI)
  fix ob :: unit and e :: history and s :: "nat list \<times> demo_event list" and u
  assume u: "u \<in> set (get_watchers demo_services ob s)"
  obtain ws log where s: "s = (ws, log)" by (cases s)
  with u have "u \<in> set ws" by (simp add: demo_services_def)
  then have "\<exists>ev \<in> set (log @ [Sent ws]). case ev of Sent us \<Rightarrow> u \<in> set us | _ \<Rightarrow> False"
    by simp
  then show "demo_notified u e (services_send_notifications demo_services ob e s)"
    using s by (simp add: demo_notified_def demo_services_def)
qed

theorem send_notifications_analyses_first_witness:
  "send_notifications demo_services (\<lambda>w. None) (\<lambda>obj. obj) False () (Some (''see 3'', 1)) ([], []) =
     services_send_notifications demo_services () (''see 3'', 1)
       (analize_object_for_watchers demo_services () ''see 3'' 1 ([], [])) \<and>
   3 \<in> demo_mentions ''see 3'' \<and>
   demo_notified 3 (''see 3'', 1)
     (send_notifications demo_services (\<lambda>w. None) (\<lambda>obj. obj) False () (Some (''see 3'', 1)) ([], []))"
proof -
  note t = send_notifications_analyses_first[of "Some (''see 3'', 1)" "(''see 3'', 1)"
      "\<lambda>w. None" "([], [])" False demo_services "\<lambda>obj. obj" "()" demo_mentions demo_notified]
  have m: "3 \<in> demo_mentions ''see 3''" by (simp add: demo_mentions_def)
  have c: "history_comment (''see 3'', 1) = ''see 3''" "history_owner (''see 3'', 1) = 1"
    by (simp_all add: history_comment_def history_owner_def)
  from t demo_analysis_adds_mentions demo_fan_out_reaches_watchers
  have "send_notifications demo_services (\<lambda>w. None) (\<lambda>obj. obj) False () (Some (''see 3'', 1)) ([], []) =
     services_send_notifications demo_services () (''see 3'', 1)
       (analize_object_for_watchers demo_services () (history_comment (''see 3'', 1))
          (history_owner (''see 3'', 1)) ([], [])) \<and>
    (\<forall>u \<in> demo_mentions (history_comment (''see 3'', 1)).
       demo_notified u (''see 3'', 1)
         (send_notifications demo_services (\<lambda>w. None) (\<lambda>obj. obj) False () (Some (''see 3'', 1)) ([], [])))"
    by blast
  with m show ?thesis unfolding c by blast
qed

subsection \<open>restore_object leaves the watchers alone on creation and on an empty list\<close>

text \<open>
  Claim C9. When \<^verbatim>\<open>restore_object\<close> is called without an instance (a creation), or with no
  \<^verbatim>\<open>"watchers"\<close> entry or an empty one, the state of the notification system after the call
  is the state before it, whatever the services \<^verbatim>\<open>add_watcher\<close> and \<^verbatim>\<open>remove_watcher\<close> do:
  neither is called. In particular the watchers of every object are the same as before, so
  an empty submitted list does not clear them.
\<close>

theorem restore_object_keeps_watchers:
  "instance = None \<or> attrs_watchers attrs = None \<or> attrs_watchers attrs = Some [] \<longrightarrow>
     snd (snd (restore_object services validate_watchers super_restore_object users set_watchers
                 attrs instance (self_fields, w))) = w \<and>
     get_watchers services obj
       (snd (snd (restore_object services validate_watchers super_restore_object users set_watchers
                    attrs instance (self_fields, w)))) = get_watchers services obj w"
proof (intro impI)
  assume a: "instance = None \<or> attrs_watchers attrs = None \<or> attrs_watchers attrs = Some []"
  then have early: "instance = None \<or>
      length (remdups (case attrs_watchers attrs of None \<Rightarrow> [] | Some ids \<Rightarrow> ids)) = 0"
    by auto
  have "snd (snd (restore_object services validate_watchers super_restore_object users set_watchers
                 attrs instance (self_fields, w))) = w"
  proof (cases "validate_watchers attrs")
    case (Some e)
    then show ?thesis by (simp add: restore_object_def)
  next
    case None
    show ?thesis
    proof (cases "super_restore_object (attrs\<lparr>attrs_watchers := None\<rparr>) instance")
      case (Inl e)
      with None show ?thesis by (simp add: restore_object_def Let_def)
    next
      case (Inr o')
      with None early show ?thesis by (simp add: restore_object_def Let_def)
    qed
  qed
  then show "snd (snd (restore_object services validate_watchers super_restore_object users set_watchers
                 attrs instance (self_fields, w))) = w \<and>
     get_watchers services obj
       (snd (snd (restore_object services validate_watchers super_restore_object users set_watchers
                    attrs instance (self_fields, w)))) = get_watchers services obj w"
    by simp
qed

theorem restore_object_keeps_watchers_witness:
  "restore_object demo_services (\<lambda>a. None) (\<lambda>a i. Inr ()) [1, 2, 3] (\<lambda>ws obj. obj)
     \<lparr>attrs_watchers = Some [], attrs_rest = ()\<rparr> (Some ()) ([''subject'', ''watchers''], ([1, 2], [])) =
     (Inr (), [''subject''], ([1, 2], [])) \<and>
   restore_object demo_services (\<lambda>a. None) (\<lambda>a i. Inr ()) [1, 2, 3] (\<lambda>ws obj. obj)
     \<lparr>attrs_watchers = Some [3], attrs_rest = ()\<rparr> None ([''subject'', ''watchers''], ([1, 2], [])) =
     (Inr (), [''subject''], ([1, 2], [])) \<and>
   restore_object demo_services (\<lambda>a. None) (\<lambda>a i. Inr ()) [1, 2, 3] (\<lambda>ws obj. obj)
     \<lparr>attrs_watchers = Some [3], attrs_rest = ()\<rparr> (Some ()) ([''subject'', ''watchers''], ([1, 2], [])) =
     (Inr (), [''subject''], ([3], [Added 3, Removed 1, Removed 2]))"
proof -
  have w1: "snd (snd (restore_object demo_services (\<lambda>a. None) (\<lambda>a i. Inr ()) [1, 2, 3] (\<lambda>ws obj. obj)
     \<lparr>attrs_watchers = Some [], attrs_rest = ()\<rparr> (Some ()) ([''subject'', ''watchers''], ([1, 2], [])))) =
     ([1, 2], [])"
    using restore_object_keeps_watchers[of "Some ()" "\<lparr>attrs_watchers = Some [], attrs_rest = ()\<rparr>"
        demo_services "\<lambda>a. None" "\<lambda>a i. Inr ()" "[1, 2, 3]" "\<lambda>ws obj. obj"
        "[''subject'', ''watchers'']" "([1, 2], [])" "()"]
    by simp
  have w2: "snd (snd (restore_object demo_services (\<lambda>a. None) (\<lambda>a i. Inr ()) [1, 2, 3] (\<lambda>ws obj. obj)
     \<lparr>attrs_watchers = Some [3], attrs_rest = ()\<rparr> None ([''subject'', ''watchers''], ([1, 2], [])))) =
     ([1, 2], [])"
    using restore_object_keeps_watchers[of None "\<lparr>attrs_watchers = Some [3], attrs_rest = ()\<rparr>"
        demo_services "\<lambda>a. None" "\<lambda>a i. Inr ()" "[1, 2, 3]" "\<lambda>ws obj. obj"
        "[''subject'', ''watchers'']" "([1, 2], [])" "()"]
    by simp
  have r1: "fst (restore_object demo_services (\<lambda>a. None) (\<lambda>a i. Inr ()) [1, 2, 3] (\<lambda>ws obj. obj)
     \<lparr>attrs_watchers = Some [], attrs_rest = ()\<rparr> (Some ()) ([''subject'', ''watchers''], ([1, 2], []))) = Inr ()"
    "fst (snd (restore_object demo_services (\<lambda>a. None) (\<lambda>a i. Inr ()) [1, 2, 3] (\<lambda>ws obj. obj)
     \<lparr>attrs_watchers = Some [], attrs_rest = ()\<rparr> (Some ()) ([''subject'', ''watchers''], ([1, 2], [])))) = [''subject'']"
    by (simp_all add: restore_object_def)
  have r2: "fst (restore_object demo_services (\<lambda>a. None) (\<lambda>a i. Inr ()) [1, 2, 3] (\<lambda>ws obj. obj)
     \<lparr>attrs_watchers = Some [3], attrs_rest = ()\<rparr> None ([''subject'', ''watchers''], ([1, 2], []))) = Inr ()"
    "fst (snd (restore_object demo_services (\<lambda>a. None) (\<lambda>a i. Inr ()) [1, 2, 3] (\<lambda>ws obj. obj)
     \<lparr>attrs_watchers = Some [3], attrs_rest = ()\<rparr> None ([''subject'', ''watchers''], ([1, 2], [])))) = [''subject'']"
    by (simp_all add: restore_object_def)
  have r3: "restore_object demo_services (\<lambda>a. None) (\<lambda>a i. Inr ()) [1, 2, 3] (\<lambda>ws obj. obj)
     \<lparr>attrs_watchers = Some [3], attrs_rest = ()\<rparr> (Some ()) ([''subject'', ''watchers''], ([1, 2], [])) =
     (Inr (), [''subject''], ([3], [Added 3, Removed 1, Removed 2]))"
    by (simp add: restore_object_def demo_services_def)
  from w1 r1 have "restore_object demo_services (\<lambda>a. None) (\<lambda>a i. Inr ()) [1, 2, 3] (\<lambda>ws obj. obj)
     \<lparr>attrs_watchers = Some [], attrs_rest = ()\<rparr> (Some ()) ([''subject'', ''watchers''], ([1, 2], [])) =
     (Inr (), [''subject''], ([1, 2], []))"
    by (simp add: prod_eq_iff)
  moreover from w2 r2 have "restore_object demo_services (\<lambda>a. None) (\<lambda>a i. Inr ()) [1, 2, 3] (\<lambda>ws obj. obj)
     \<lparr>attrs_watchers = Some [3], attrs_rest = ()\<rparr> None ([''subject'', ''watchers''], ([1, 2], [])) =
     (Inr (), [''subject''], ([1, 2], []))"
    by (simp add: prod_eq_iff)
  ultimately show ?thesis using r3 by (intro conjI)
qed

subsection \<open>The related people of a project\<close>

lemma user_join_set:
  "set (user_join users policies) =
   {(u, np). u \<in> set users \<and>
      (case np of None \<Rightarrow> \<forall>x \<in> set policies. policy_user x \<noteq> user_id u
       | Some x \<Rightarrow> x \<in> set policies \<and> policy_user x = user_id u)}"
proof (rule set_eqI)
  fix row :: "User \<times> NotifyPolicy option"
  obtain u np where row: "row = (u, np)" by (cases row)
  have one: "(u, np) \<in> set (case filter (\<lambda>x. policy_user x = user_id v) policies of
                         [] \<Rightarrow> [(v, None)]
                       | nps \<Rightarrow> map (\<lambda>x. (v, Some x)) nps) =
        (u = v \<and> (case np of None \<Rightarrow> \<forall>x \<in> set policies. policy_user x \<noteq> user_id u
            | Some x \<Rightarrow> x \<in> set policies \<and> policy_user x = user_id u))" for v
  proof (cases "filter (\<lambda>x. policy_user x = user_id v) policies")
    case Nil
    then have "\<forall>x \<in> set policies. policy_user x \<noteq> user_id v" by (simp add: filter_empty_conv)
    with Nil show ?thesis by (cases np) auto
  next
    case (Cons a as)
    then have "a \<in> set (filter (\<lambda>x. policy_user x = user_id v) policies)" by simp
    then have ex: "\<exists>x \<in> set policies. policy_user x = user_id v" by auto
    have "(u, np) \<in> set (map (\<lambda>x. (v, Some x)) (filter (\<lambda>x. policy_user x = user_id v) policies)) =
        (u = v \<and> (case np of None \<Rightarrow> \<forall>x \<in> set policies. policy_user x \<noteq> user_id u
            | Some x \<Rightarrow> x \<in> set policies \<and> policy_user x = user_id u))"
      using ex by (cases np) auto
    with Cons show ?thesis by simp
  qed
  show "row \<in> set (user_join users policies) \<longleftrightarrow>
        row \<in> {(u, np). u \<in> set users \<and>
      (case np of None \<Rightarrow> \<forall>x \<in> set policies. policy_user x \<noteq> user_id u
       | Some x \<Rightarrow> x \<in> set policies \<and> policy_user x = user_id u)}"
    unfolding row user_join_def using one by auto
qed

text \<open>
  Claim C8, for saved projects. For every project \<open>P\<close> that has an id, user ids being
  different from 0, \<^verbatim>\<open>get_related_people\<close> returns, without duplicates, exactly the users who
  are the owner of \<open>P\<close> or have a notify policy for \<open>P\<close> that is not at the ignore level, and
  who are neither inactive nor system users.
\<close>

theorem get_related_people_is_owner_and_watchers:
  "project_id P = Some p \<and> (\<forall>u \<in> set users. user_id u \<noteq> 0) \<longrightarrow>
     set (get_related_people users policies P) = related_people_spec users policies P \<and>
     distinct (get_related_people users policies P)"
proof (intro impI conjI)
  assume a: "project_id P = Some p \<and> (\<forall>u \<in> set users. user_id u \<noteq> 0)"
  show "distinct (get_related_people users policies P)"
    by (simp add: get_related_people_def)
  show "set (get_related_people users policies P) = related_people_spec users policies P"
  proof (rule set_eqI)
    fix u :: User
    let ?own = "owner_id P = Some (user_id u)"
    let ?wat = "\<exists>np \<in> set policies. policy_user np = user_id u \<and>
             Some (policy_project np) = project_id P \<and> notify_level np \<noteq> Ignore"
    have own: "q_owner P (u, np) = ?own" if "u \<in> set users" for np
      using a that by (auto simp: q_owner_def split: option.splits)
    have wat: "q_watchers P (u, np) =
        (case np of None \<Rightarrow> False | Some x \<Rightarrow> policy_project x = p \<and> notify_level x \<noteq> Ignore)" for np
      using a by (cases np) (simp_all add: q_watchers_def policy_of_project_def policy_ignores_def)
    have "u \<in> set (get_related_people users policies P) \<longleftrightarrow>
        (\<exists>np. (u, np) \<in> set (user_join users policies) \<and>
           (q_owner P (u, np) \<or> q_watchers P (u, np)) \<and> is_active u \<and> \<not> is_system u)"
      by (force simp: get_related_people_def)
    also have "\<dots> \<longleftrightarrow> u \<in> set users \<and> is_active u \<and> \<not> is_system u \<and>
        (\<exists>np. (case np of None \<Rightarrow> \<forall>x \<in> set policies. policy_user x \<noteq> user_id u
                  | Some x \<Rightarrow> x \<in> set policies \<and> policy_user x = user_id u) \<and>
              (?own \<or> (case np of None \<Rightarrow> False
                        | Some x \<Rightarrow> policy_project x = p \<and> notify_level x \<noteq> Ignore)))"
      unfolding wat user_join_set using own by auto
    also have "(\<exists>np. (case np of None \<Rightarrow> \<forall>x \<in> set policies. policy_user x \<noteq> user_id u
                  | Some x \<Rightarrow> x \<in> set policies \<and> policy_user x = user_id u) \<and>
              (?own \<or> (case np of None \<Rightarrow> False
                        | Some x \<Rightarrow> policy_project x = p \<and> notify_level x \<noteq> Ignore))) \<longleftrightarrow>
        (?own \<or> ?wat)"
      (is "?L \<longleftrightarrow> ?R")
    proof
      assume ?L
      then obtain np where np: "case np of None \<Rightarrow> \<forall>x \<in> set policies. policy_user x \<noteq> user_id u
                  | Some x \<Rightarrow> x \<in> set policies \<and> policy_user x = user_id u"
        and c: "?own \<or> (case np of None \<Rightarrow> False
                        | Some x \<Rightarrow> policy_project x = p \<and> notify_level x \<noteq> Ignore)"
        by blast
      show ?R
      proof (cases ?own)
        case True
        then show ?thesis by blast
      next
        case False
        with c obtain x where x: "np = Some x" "policy_project x = p" "notify_level x \<noteq> Ignore"
          by (cases np) auto
        with np have "x \<in> set policies" "policy_user x = user_id u" by auto
        with x a show ?thesis by auto
      qed
    next
      assume r: ?R
      show ?L
      proof (cases ?wat)
        case True
        then obtain x where x: "x \<in> set policies" "policy_user x = user_id u"
          "Some (policy_project x) = project_id P" "notify_level x \<noteq> Ignore"
          by blast
        with a have "policy_project x = p" by simp
        with x show ?thesis by (intro exI[of _ "Some x"]) auto
      next
        case False
        with r have o: ?own by blast
        show ?thesis
        proof (cases "\<exists>x \<in> set policies. policy_user x = user_id u")
          case True
          then obtain x where "x \<in> set policies" "policy_user x = user_id u" by blast
          with o show ?thesis by (intro exI[of _ "Some x"]) auto
        next
          case False
          with o show ?thesis by (intro exI[of _ None]) auto
        qed
      qed
    qed
    finally show "u \<in> set (get_related_people users policies P) \<longleftrightarrow>
        u \<in> related_people_spec users policies P"
      by (simp add: related_people_spec_def)
  qed
qed

theorem get_related_people_is_owner_and_watchers_witness:
  "project_id demo_project = Some 1 \<and>
   get_related_people demo_users demo_policies demo_project =
     [\<lparr>user_id = 1, username = ''admin'', is_active = True, is_system = False\<rparr>,
      \<lparr>user_id = 2, username = ''alice'', is_active = True, is_system = False\<rparr>] \<and>
   related_people_spec demo_users demo_policies demo_project =
     {\<lparr>user_id = 1, username = ''admin'', is_active = True, is_system = False\<rparr>,
      \<lparr>user_id = 2, username = ''alice'', is_active = True, is_system = False\<rparr>}"
proof -
  have p: "project_id demo_project = Some 1" by (simp add: demo_project_def)
  have ids: "\<forall>u \<in> set demo_users. user_id u \<noteq> 0" by (simp add: demo_users_def)
  have r: "get_related_people demo_users demo_policies demo_project =
     [\<lparr>user_id = 1, username = ''admin'', is_active = True, is_system = False\<rparr>,
      \<lparr>user_id = 2, username = ''alice'', is_active = True, is_system = False\<rparr>]"
    by code_simp
  from get_related_people_is_owner_and_watchers[of demo_project 1 demo_users demo_policies] p ids
  have "set (get_related_people demo_users demo_policies demo_project) =
      related_people_spec demo_users demo_policies demo_project" by blast
  with r have "related_people_spec demo_users demo_policies demo_project =
     {\<lparr>user_id = 1, username = ''admin'', is_active = True, is_system = False\<rparr>,
      \<lparr>user_id = 2, username = ''alice'', is_active = True, is_system = False\<rparr>}"
    by simp
  with p r show ?thesis by (intro conjI)
qed

text \<open>
  The claim as it was stated, for every project, fails on a project without an id: the
  condition \<^verbatim>\<open>notify_policies__project_id=None\<close> is \<^verbatim>\<open>IS NULL\<close> over the outer join, which
  holds for the users that have no notify policy at all. For the unsaved project owned by
  user 3 the method returns user 1 as well, who is not the owner and has no notify policy,
  while the owner and the watchers of the project are user 3 alone.
\<close>

theorem get_related_people_unsaved_counterexample:
  "project_id demo_new_project = None \<and>
   owner_id demo_new_project = Some 3 \<and>
   filter (\<lambda>np. policy_user np = 1) demo_policies = [] \<and>
   get_related_people demo_users demo_policies demo_new_project =
     [\<lparr>user_id = 1, username = ''admin'', is_active = True, is_system = False\<rparr>,
      \<lparr>user_id = 3, username = ''bob'', is_active = True, is_system = False\<rparr>] \<and>
   related_people_spec demo_users demo_policies demo_new_project =
     {\<lparr>user_id = 3, username = ''bob'', is_active = True, is_system = False\<rparr>}"
proof -
  have p: "project_id demo_new_project = None" "owner_id demo_new_project = Some 3"
    by (simp_all add: demo_new_project_def)
  have n: "filter (\<lambda>np. policy_user np = 1) demo_policies = []"
    by (simp add: demo_policies_def)
  have r: "get_related_people demo_users demo_policies demo_new_project =
     [\<lparr>user_id = 1, username = ''admin'', is_active = True, is_system = False\<rparr>,
      \<lparr>user_id = 3, username = ''bob'', is_active = True, is_system = False\<rparr>]"
    by code_simp
  have s: "related_people_spec demo_users demo_policies demo_new_project =
     {\<lparr>user_id = 3, username = ''bob'', is_active = True, is_system = False\<rparr>}"
    unfolding related_people_spec_def p by (auto simp: demo_users_def demo_policies_def)
  from p n r s show ?thesis by (intro conjI)
qed

subsection \<open>What a successful save establishes\<close>

lemma unique_slug_loop_result:
  assumes "unique_slug_loop progression slug_exists base_slug k s = Some y"
  shows "y = s \<or> (\<exists>j. y = base_slug @ ''-'' @ str_int (progression j))"
proof (rule unique_slug_loop.raw_induct[where P = "\<lambda>progression slug_exists base_slug k s y.
        y = s \<or> (\<exists>j. y = base_slug @ ''-'' @ str_int (progression j))", OF _ assms])
  fix f :: "(nat \<Rightarrow> int) \<Rightarrow> (string \<Rightarrow> bool) \<Rightarrow> string \<Rightarrow> nat \<Rightarrow> string \<Rightarrow> string option"
    and progression slug_exists base_slug k s y
  assume IH: "\<And>p e b k s y. f p e b k s = Some y \<Longrightarrow>
      y = s \<or> (\<exists>j. y = b @ ''-'' @ str_int (p j))"
    and body: "(if \<not> slug_exists s \<or> 100 < progression k then Some s
      else f progression slug_exists base_slug (Suc k)
            (base_slug @ ''-'' @ str_int (progression k))) = Some y"
  show "y = s \<or> (\<exists>j. y = base_slug @ ''-'' @ str_int (progression j))"
  proof (cases "\<not> slug_exists s \<or> 100 < progression k")
    case True
    with body show ?thesis by simp
  next
    case False
    with body have "f progression slug_exists base_slug (Suc k)
            (base_slug @ ''-'' @ str_int (progression k)) = Some y" by simp
    from IH[OF this] show ?thesis by blast
  qed
qed

text \<open>The loop ends as soon as the generator yields a value above 100.\<close>

lemma unique_slug_loop_terminates:
  assumes "progression (k + n) > 100"
  shows "\<exists>y. unique_slug_loop progression slug_exists base_slug k s = Some y"
  using assms
proof (induction n arbitrary: k s)
  case 0
  then show ?case by (subst unique_slug_loop.simps) simp
next
  case (Suc n)
  from Suc.prems have "progression (Suc k + n) > 100" by simp
  from Suc.IH[OF this] obtain y where
    "unique_slug_loop progression slug_exists base_slug (Suc k)
       (base_slug @ ''-'' @ str_int (progression k)) = Some y" by blast
  then show ?case by (subst unique_slug_loop.simps) simp
qed

lemma model_save_rows:
  assumes "model_save self objects = (None, self', objects')"
  shows "self' \<in> set objects' \<and> set objects' \<subseteq> insert self' (set objects) \<and>
         self' = self\<lparr>project_id := project_id self'\<rparr>"
proof (cases "project_id self")
  case None
  with assms show ?thesis
    by (auto simp: model_save_def Let_def split: if_splits)
next
  case (Some i)
  show ?thesis
  proof (cases "\<exists>r \<in> set objects. project_id r = Some i")
    case True
    then obtain r where r: "r \<in> set objects" "project_id r = Some i" by blast
    from assms Some True have s: "self' = self"
      and o: "objects' = map (\<lambda>r. if project_id r = Some i then self else r) objects"
      by (auto simp: model_save_def split: if_splits)
    from r o have "self \<in> set objects'" by force
    moreover from o have "set objects' \<subseteq> insert self (set objects)" by auto
    ultimately show ?thesis using s by simp
  next
    case False
    with assms Some show ?thesis
      by (auto simp: model_save_def split: if_splits)
  qed
qed

lemma saved_ok_clear:
  assumes "project_slug self \<noteq> []"
  shows "saved_ok (clear_videoconferences_extra_data self\<lparr>project_id := i\<rparr>)"
  using assms
  by (cases "videoconferences self") (auto simp: saved_ok_def clear_videoconferences_extra_data_def)

lemma Project_save_ok:
  assumes contract: "\<forall>base_name objects. slugify_uniquely base_name objects \<noteq> []"
    and save: "Project_save now slugify_uniquely arithmetic_progression users self objects =
       Some (None, self', objects')"
  shows "saved_ok self' \<and> self' \<in> set objects' \<and> set objects' \<subseteq> insert self' (set objects) \<and>
    (project_slug self \<noteq> [] \<longrightarrow> project_slug self' = project_slug self) \<and>
    (project_slug self = [] \<longrightarrow>
       (\<exists>owner \<in> set users. owner_id self = Some (user_id owner) \<and>
          (project_slug self' = slugify_uniquely (username owner @ ''-'' @ project_name self) objects \<or>
           (\<exists>j. project_slug self' =
              slugify_uniquely (username owner @ ''-'' @ project_name self) objects @ ''-'' @
              str_int (arithmetic_progression j)))))"
proof -
  let ?self = "set_modified_date now self"
  have slug_md: "project_slug ?self = project_slug self" by (simp add: set_modified_date_def)
  show ?thesis
  proof (cases "project_slug self = []")
    case False
    with save slug_md have m: "model_save (clear_videoconferences_extra_data ?self) objects =
        (None, self', objects')"
      by (simp add: Project_save_def Let_def)
    from model_save_rows[OF m] have r: "self' \<in> set objects'"
      "set objects' \<subseteq> insert self' (set objects)"
      "self' = (clear_videoconferences_extra_data ?self)\<lparr>project_id := project_id self'\<rparr>"
      by blast+
    from False slug_md have "project_slug ?self \<noteq> []" by simp
    from saved_ok_clear[OF this] r(3) have "saved_ok self'" by metis
    moreover have "project_slug self' = project_slug self"
      using arg_cong[OF r(3), of project_slug] slug_md
      by (simp add: clear_videoconferences_extra_data_def)
    ultimately show ?thesis using r False by blast
  next
    case True
    have nm: "project_name ?self = project_name self" "owner_id ?self = owner_id self"
      by (simp_all add: set_modified_date_def)
    from True save slug_md obtain owner :: User and new_slug where
      own: "(case owner_id self of None \<Rightarrow> None
               | Some i \<Rightarrow> find (\<lambda>u. user_id u = i) users) = Some owner" and
      loop: "unique_slug_loop arithmetic_progression
               (\<lambda>new_slug. \<exists>r \<in> set objects. project_slug r = new_slug)
               (slugify_uniquely (username owner @ ''-'' @ project_name ?self) objects) 0
               (slugify_uniquely (username owner @ ''-'' @ project_name ?self) objects) = Some new_slug"
      and m: "model_save (clear_videoconferences_extra_data (?self\<lparr>project_slug := new_slug\<rparr>)) objects =
        (None, self', objects')"
      by (auto simp: Project_save_def Let_def nm split: option.splits)
    from own obtain i where i: "owner_id self = Some i" "find (\<lambda>u. user_id u = i) users = Some owner"
      by (cases "owner_id self") auto
    from i(2) have ow: "owner \<in> set users" "user_id owner = i"
      by (auto simp: find_Some_iff)
    from contract have "slugify_uniquely (username owner @ ''-'' @ project_name ?self) objects \<noteq> []"
      by blast
    with unique_slug_loop_result[OF loop] have ne: "new_slug \<noteq> []" by auto
    from model_save_rows[OF m] have r: "self' \<in> set objects'"
      "set objects' \<subseteq> insert self' (set objects)"
      "self' = (clear_videoconferences_extra_data (?self\<lparr>project_slug := new_slug\<rparr>))\<lparr>project_id := project_id self'\<rparr>"
      by blast+
    from ne have "project_slug (?self\<lparr>project_slug := new_slug\<rparr>) \<noteq> []" by simp
    from saved_ok_clear[OF this] r(3) have ok: "saved_ok self'" by metis
    have "project_slug (clear_videoconferences_extra_data (?self\<lparr>project_slug := new_slug\<rparr>)) = new_slug"
      by (simp add: clear_videoconferences_extra_data_def)
    with arg_cong[OF r(3), of project_slug] have sl: "project_slug self' = new_slug" by simp
    from unique_slug_loop_result[OF loop] sl nm
    have "project_slug self' = slugify_uniquely (username owner @ ''-'' @ project_name self) objects \<or>
           (\<exists>j. project_slug self' =
              slugify_uniquely (username owner @ ''-'' @ project_name self) objects @ ''-'' @
              str_int (arithmetic_progression j))"
      by simp
    with ow i(1) have "\<exists>owner \<in> set users. owner_id self = Some (user_id owner) \<and>
          (project_slug self' = slugify_uniquely (username owner @ ''-'' @ project_name self) objects \<or>
           (\<exists>j. project_slug self' =
              slugify_uniquely (username owner @ ''-'' @ project_name self) objects @ ''-'' @
              str_int (arithmetic_progression j)))"
      by blast
    with ok r True show ?thesis by blast
  qed
qed

lemma reachable_ok:
  assumes contract: "\<forall>base_name objects. slugify_uniquely base_name objects \<noteq> []"
    and "reachable slugify_uniquely arithmetic_progression objects"
  shows "\<forall>p \<in> set objects. saved_ok p"
  using assms(2)
proof (induction rule: reachable.induct)
  case reachable_empty
  then show ?case by simp
next
  case (reachable_save objects now users self self' objects')
  from Project_save_ok[OF contract reachable_save(2)]
  have "saved_ok self'" "set objects' \<subseteq> insert self' (set objects)" by blast+
  with reachable_save(3) show ?case by blast
qed

text \<open>The save returns whenever the generator gets above 100.\<close>

lemma Project_save_returns:
  assumes "arithmetic_progression n > 100"
  shows "\<exists>r. Project_save now slugify_uniquely arithmetic_progression users self objects = Some r"
proof (cases "project_slug (set_modified_date now self) = []")
  case False
  then have "Project_save now slugify_uniquely arithmetic_progression users self objects =
      Some (model_save (clear_videoconferences_extra_data (set_modified_date now self)) objects)"
    by (simp add: Project_save_def Let_def)
  then show ?thesis by blast
next
  case True
  let ?self = "set_modified_date now self"
  show ?thesis
  proof (cases "case owner_id ?self of None \<Rightarrow> None | Some i \<Rightarrow> find (\<lambda>u. user_id u = i) users")
    case None
    with True have "Project_save now slugify_uniquely arithmetic_progression users self objects =
        Some (Some DoesNotExist, ?self, objects)"
      by (simp add: Project_save_def Let_def)
    then show ?thesis by blast
  next
    case (Some owner)
    let ?base = "slugify_uniquely (username owner @ ''-'' @ project_name ?self) objects"
    from assms have "arithmetic_progression (0 + n) > 100" by simp
    from unique_slug_loop_terminates[where progression = arithmetic_progression and k = 0
        and n = n and slug_exists = "\<lambda>new_slug. \<exists>r \<in> set objects. project_slug r = new_slug"
        and base_slug = ?base and s = ?base] this
    obtain y where "unique_slug_loop arithmetic_progression
        (\<lambda>new_slug. \<exists>r \<in> set objects. project_slug r = new_slug) ?base 0 ?base = Some y"
      by blast
    with True Some have "Project_save now slugify_uniquely arithmetic_progression users self objects =
        Some (model_save (clear_videoconferences_extra_data (?self\<lparr>project_slug := y\<rparr>)) objects)"
      by (simp add: Project_save_def Let_def)
    then show ?thesis by blast
  qed
qed

text \<open>
  Claim C10. Provided \<^verbatim>\<open>slugify_uniquely\<close> never returns the empty string, every successful
  \<^verbatim>\<open>Project.save\<close> leaves the instance, which is then a row of the table, with a non-empty
  slug and, if its videoconference system is unset, without videoconference extra data. A
  slug that was not blank is kept; a blank one becomes the slugified
  \<^verbatim>\<open>"<owner username>-<project name>"\<close>, possibly followed by \<^verbatim>\<open>-<i>\<close> for a value \<open>i\<close> of the
  generator. Hence every project in a table built by successful saves has a non-empty slug
  and no videoconference extra data without a videoconference system.
\<close>

theorem save_establishes_invariant:
  "(\<forall>base_name objects. slugify_uniquely base_name objects \<noteq> []) \<longrightarrow>
     (Project_save now slugify_uniquely arithmetic_progression users self objects =
        Some (None, self', objects') \<longrightarrow>
      saved_ok self' \<and> self' \<in> set objects' \<and>
      (project_slug self \<noteq> [] \<longrightarrow> project_slug self' = project_slug self) \<and>
      (project_slug self = [] \<longrightarrow>
         (\<exists>owner \<in> set users. owner_id self = Some (user_id owner) \<and>
            (project_slug self' = slugify_uniquely (username owner @ ''-'' @ project_name self) objects \<or>
             (\<exists>j. project_slug self' =
                slugify_uniquely (username owner @ ''-'' @ project_name self) objects @ ''-'' @
                str_int (arithmetic_progression j)))))) \<and>
     (reachable slugify_uniquely arithmetic_progression all_objects \<longrightarrow>
        (\<forall>p \<in> set all_objects. saved_ok p))"
proof (intro impI conjI)
  assume c: "\<forall>base_name objects. slugify_uniquely base_name objects \<noteq> []"
  {
    assume s: "Project_save now slugify_uniquely arithmetic_progression users self objects =
        Some (None, self', objects')"
    note r = Project_save_ok[OF c s]
    from r show "saved_ok self'" by blast
    from r show "self' \<in> set objects'" by blast
    {
      assume "project_slug self \<noteq> []"
      with r show "project_slug self' = project_slug self" by blast
    }
    {
      assume "project_slug self = []"
      with r show "\<exists>owner \<in> set users. owner_id self = Some (user_id owner) \<and>
            (project_slug self' = slugify_uniquely (username owner @ ''-'' @ project_name self) objects \<or>
             (\<exists>j. project_slug self' =
                slugify_uniquely (username owner @ ''-'' @ project_name self) objects @ ''-'' @
                str_int (arithmetic_progression j)))" by blast
    }
  }
  {
    assume "reachable slugify_uniquely arithmetic_progression all_objects"
    from reachable_ok[OF c this] show "\<forall>p \<in> set all_objects. saved_ok p" .
  }
qed

theorem save_establishes_invariant_witness:
  "(\<forall>base_name objects. demo_slugify_uniquely base_name objects \<noteq> []) \<and>
   Project_save 5 demo_slugify_uniquely demo_progression (User_objects demo_db) demo_unsaved [] =
     Some (None,
       demo_unsaved\<lparr>videoconferences_extra_data := None, project_id := Some 1,
                    project_slug := ''admin-demo'', modified_date := Some 5\<rparr>,
       [demo_unsaved\<lparr>videoconferences_extra_data := None, project_id := Some 1,
                     project_slug := ''admin-demo'', modified_date := Some 5\<rparr>]) \<and>
   saved_ok (demo_unsaved\<lparr>videoconferences_extra_data := None, project_id := Some 1,
                          project_slug := ''admin-demo'', modified_date := Some 5\<rparr>) \<and>
   reachable demo_slugify_uniquely demo_progression
     [demo_unsaved\<lparr>videoconferences_extra_data := None, project_id := Some 1,
                    project_slug := ''admin-demo'', modified_date := Some 5\<rparr>]"
proof -
  let ?saved = "demo_unsaved\<lparr>videoconferences_extra_data := None, project_id := Some 1,
                    project_slug := ''admin-demo'', modified_date := Some 5\<rparr>"
  have c: "\<forall>base_name objects. demo_slugify_uniquely base_name objects \<noteq> []"
    by (simp add: demo_slugify_uniquely_def)
  have loop: "unique_slug_loop demo_progression (\<lambda>new_slug. False) ''admin-demo'' 0 ''admin-demo'' =
      Some ''admin-demo''"
    by (subst unique_slug_loop.simps) simp
  have s: "Project_save 5 demo_slugify_uniquely demo_progression (User_objects demo_db) demo_unsaved [] =
     Some (None, ?saved, [?saved])"
    by (simp add: Project_save_def set_modified_date_def demo_unsaved_def demo_db_def
        demo_slugify_uniquely_def loop clear_videoconferences_extra_data_def model_save_def
        fresh_project_id_def Let_def)
  have r: "reachable demo_slugify_uniquely demo_progression [?saved]"
    by (rule reachable_save[OF reachable_empty s])
  from save_establishes_invariant[of demo_slugify_uniquely 5 demo_progression "User_objects demo_db"
      demo_unsaved "[]" ?saved "[?saved]" "[?saved]"] c s r
  have "saved_ok ?saved" by blast
  with c s r show ?thesis by (intro conjI)
qed

subsection \<open>The favourites feed scenario\<close>

text \<open>
  Claim C2, as amended. In the scenario where user \<open>a\<close> votes on a project \<open>p\<close> that \<open>a\<close> can
  view, on a user story, a task and an issue inside \<open>p\<close>, and watches the same four entities,
  \<open>get_favourites(a, a)\<close> returns 8 items, filtering with \<open>type = "project"\<close> returns 2 items
  (the vote on the project and the watch of it), and filtering with \<open>action = "watch"\<close>
  returns 4 items.
\<close>

theorem favourites_scenario_counts:
  "can_view a p \<longrightarrow>
     length (get_favourites can_view (favourites_scenario a p us t i) a a None None None) = 8 \<and>
     length (get_favourites can_view (favourites_scenario a p us t i) a a (Some ''project'') None None) = 2 \<and>
     length (get_favourites can_view (favourites_scenario a p us t i) a a None (Some ''watch'') None) = 4"
  by (simp add: get_favourites_def favourites_scenario_def items_of_def kind_name_def)

theorem favourites_scenario_counts_witness:
  "length (get_favourites (\<lambda>viewer project. True) (favourites_scenario 1 1 1 1 1) 1 1 None None None) = 8 \<and>
   length (get_favourites (\<lambda>viewer project. True) (favourites_scenario 1 1 1 1 1) 1 1
             (Some ''project'') None None) = 2 \<and>
   length (get_favourites (\<lambda>viewer project. True) (favourites_scenario 1 1 1 1 1) 1 1
             None (Some ''watch'') None) = 4"
  using favourites_scenario_counts[of "\<lambda>viewer project. True" 1 1 1 1 1] by simp

text \<open>
  The claim as it was stated gives 1 item for \<open>type = "project"\<close>. The feed has one item per
  vote and one per watch, so the project comes twice; the repository's test asserts 2.
\<close>

theorem favourites_scenario_counterexample:
  "\<not> length (get_favourites (\<lambda>viewer project. True) (favourites_scenario 1 1 1 1 1) 1 1
               (Some ''project'') None None) = 1"
  by (simp add: get_favourites_def favourites_scenario_def items_of_def kind_name_def)

end
